theory Spec2Isabelle
  imports Main "HOL-Library.Word" "HOL-Library.Sublist"
begin

section \<open>JavaScript strings\<close>

text \<open>
  A JavaScript string is a sequence of UTF-16 code units; \<open>length\<close>, \<open>trim\<close>,
  \<open>split\<close>, \<open>replace\<close> and a regular expression without the \<open>u\<close> flag all work
  on code units. The literals of \<open>src/index.ts\<close> that are not ASCII (the localized
  messages and labels) are written out as their code units.
\<close>

type_synonym cu = "16 word"

type_synonym jsstring = "cu list"

text \<open>An ASCII literal of the source, as code units.\<close>

definition U :: "string \<Rightarrow> jsstring" where
  "U s = map (\<lambda>c. of_nat (of_char c)) s"

text \<open>
  ECMAScript WhiteSpace and LineTerminator: the code units that
  \<open>String.prototype.trim\<close> strips and that the class \<open>\s\<close> matches.
\<close>

definition is_ws :: "cu \<Rightarrow> bool" where
  "is_ws c \<longleftrightarrow>
     c = 0x09 \<or> c = 0x0A \<or> c = 0x0B \<or> c = 0x0C \<or> c = 0x0D \<or> c = 0x20 \<or> c = 0xA0 \<or>
     c = 0x1680 \<or> (0x2000 \<le> c \<and> c \<le> 0x200A) \<or> c = 0x2028 \<or> c = 0x2029 \<or>
     c = 0x202F \<or> c = 0x205F \<or> c = 0x3000 \<or> c = 0xFEFF"

text \<open>\<open>s.trim()\<close>\<close>

definition trim :: "jsstring \<Rightarrow> jsstring" where
  "trim s = rev (dropWhile is_ws (rev (dropWhile is_ws s)))"

text \<open>\<open>s.split(d)\<close> for a separator of one code unit: never an empty list.\<close>

fun split_acc :: "cu \<Rightarrow> jsstring \<Rightarrow> jsstring \<Rightarrow> jsstring list" where
  "split_acc d acc [] = [rev acc]"
| "split_acc d acc (c # cs) =
     (if c = d then rev acc # split_acc d [] cs else split_acc d (c # acc) cs)"

definition str_split :: "cu \<Rightarrow> jsstring \<Rightarrow> jsstring list" where
  "str_split d s = split_acc d [] s"

text \<open>\<open>xs.join(sep)\<close> on an array of strings.\<close>

fun str_join :: "jsstring \<Rightarrow> jsstring list \<Rightarrow> jsstring" where
  "str_join sep [] = []"
| "str_join sep [x] = x"
| "str_join sep (x # y # ys) = x @ sep @ str_join sep (y # ys)"

text \<open>
  \<open>configured.split(',').map((v) => v.trim()).filter(Boolean)\<close>, the expression both
  \<open>resolveAllowedOrigin\<close> and \<open>sendResendEmail\<close> apply to a configured list.
\<close>

definition comma_entries :: "jsstring \<Rightarrow> jsstring list" where
  "comma_entries s = filter (\<lambda>e. e \<noteq> []) (map trim (str_split 0x2C s))"

text \<open>The decimal rendering of a number that is a natural (an HTTP status).\<close>

fun show_nat :: "nat \<Rightarrow> jsstring" where
  "show_nat n = (if n < 10 then [of_nat (48 + n)] else show_nat (n div 10) @ [of_nat (48 + n mod 10)])"

declare show_nat.simps [simp del]

section \<open>Regular expressions\<close>

text \<open>
  The one regular expression of the source is
  \<open>/^[^\s@]+@[^\s@]+\.[^\s@]+$/\<close>: anchored at both ends, built from character
  classes, sequence and \<open>+\<close>. \<open>RegExp.prototype.test\<close> answers whether some match
  exists, so for such an expression whether the whole string is in its language; the
  matcher decides that with derivatives.
\<close>

datatype rx = RZero | ROne | RCls "cu \<Rightarrow> bool" | RAlt rx rx | RSeq rx rx | RStar rx

fun nullable :: "rx \<Rightarrow> bool" where
  "nullable RZero = False"
| "nullable ROne = True"
| "nullable (RCls P) = False"
| "nullable (RAlt r s) = (nullable r \<or> nullable s)"
| "nullable (RSeq r s) = (nullable r \<and> nullable s)"
| "nullable (RStar r) = True"

fun deriv :: "cu \<Rightarrow> rx \<Rightarrow> rx" where
  "deriv c RZero = RZero"
| "deriv c ROne = RZero"
| "deriv c (RCls P) = (if P c then ROne else RZero)"
| "deriv c (RAlt r s) = RAlt (deriv c r) (deriv c s)"
| "deriv c (RSeq r s) =
     (if nullable r then RAlt (RSeq (deriv c r) s) (deriv c s) else RSeq (deriv c r) s)"
| "deriv c (RStar r) = RSeq (deriv c r) (RStar r)"

fun rx_test :: "rx \<Rightarrow> jsstring \<Rightarrow> bool" where
  "rx_test r [] = nullable r"
| "rx_test r (c # cs) = rx_test (deriv c r) cs"

definition RPlus :: "rx \<Rightarrow> rx" where
  "RPlus r = RSeq r (RStar r)"

text \<open>\<open>[^\s@]\<close>\<close>

definition not_space_at :: "cu \<Rightarrow> bool" where
  "not_space_at c \<longleftrightarrow> \<not> is_ws c \<and> c \<noteq> 0x40"

definition emailRegex :: rx where
  "emailRegex =
     RSeq (RPlus (RCls not_space_at))
      (RSeq (RCls (\<lambda>c. c = 0x40))
        (RSeq (RPlus (RCls not_space_at))
          (RSeq (RCls (\<lambda>c. c = 0x2E))
            (RPlus (RCls not_space_at)))))"

text \<open>The language of an expression, to say what the matcher decides.\<close>

inductive star_lang :: "jsstring set \<Rightarrow> jsstring \<Rightarrow> bool" for L where
  star_nil: "star_lang L []"
| star_app: "u \<in> L \<Longrightarrow> u \<noteq> [] \<Longrightarrow> star_lang L v \<Longrightarrow> star_lang L (u @ v)"

fun lang :: "rx \<Rightarrow> jsstring set" where
  "lang RZero = {}"
| "lang ROne = {[]}"
| "lang (RCls P) = {[c] | c. P c}"
| "lang (RAlt r s) = lang r \<union> lang s"
| "lang (RSeq r s) = {u @ v | u v. u \<in> lang r \<and> v \<in> lang s}"
| "lang (RStar r) = {w. star_lang (lang r) w}"

section \<open>Values, errors and property access\<close>

text \<open>
  The handler casts the parsed request body to its payload interface without a check,
  so at run time a field holds whatever JSON value the client sent. A number is
  modelled by the two observations the handler can make of it: whether it is truthy
  (not zero) and its \<open>ToString\<close> rendering. \<open>JObj kvs\<close> is the object whose
  property \<open>k\<close> is \<open>map_of kvs k\<close>.
\<close>

datatype json =
    JNull
  | JBool bool
  | JNum bool jsstring
  | JStr jsstring
  | JArr "json list"
  | JObj "(jsstring \<times> json) list"

datatype js_error = TypeError | SyntaxError | FetchFailed | Error jsstring

definition bindE :: "js_error + 'a \<Rightarrow> ('a \<Rightarrow> js_error + 'b) \<Rightarrow> js_error + 'b" where
  "bindE m f = (case m of Inl e \<Rightarrow> Inl e | Inr a \<Rightarrow> f a)"

text \<open>\<open>Boolean(v)\<close>, and the test of \<open>!v\<close>, \<open>v || d\<close> and \<open>if (v)\<close>.\<close>

fun truthy :: "json \<Rightarrow> bool" where
  "truthy JNull = False"
| "truthy (JBool b) = b"
| "truthy (JNum nz txt) = nz"
| "truthy (JStr s) = (s \<noteq> [])"
| "truthy (JArr xs) = True"
| "truthy (JObj kvs) = True"

text \<open>
  \<open>ToString\<close>, as a template literal and \<open>URLSearchParams.append\<close> apply it. An
  array is joined with commas, \<open>null\<close> elements rendering as the empty string; a
  parsed object renders through \<open>Object.prototype.toString\<close> unless it has an own
  property \<open>toString\<close>, which is never callable in a parsed value, so the
  conversion throws.
\<close>

fun to_string :: "json \<Rightarrow> js_error + jsstring"
  and join_elems :: "json list \<Rightarrow> js_error + jsstring" where
  "to_string JNull = Inr (U ''null'')"
| "to_string (JBool b) = Inr (if b then U ''true'' else U ''false'')"
| "to_string (JNum nz txt) = Inr txt"
| "to_string (JStr s) = Inr s"
| "to_string (JArr xs) = join_elems xs"
| "to_string (JObj kvs) =
     (if U ''toString'' \<in> fst ` set kvs then Inl TypeError else Inr (U ''[object Object]''))"
| "join_elems [] = Inr []"
| "join_elems (x # xs) =
     bindE (if x = JNull then Inr [] else to_string x) (\<lambda>a.
       if xs = [] then Inr a
       else bindE (join_elems xs) (\<lambda>b. Inr (a @ U '','' @ b)))"

text \<open>
  \<open>v.k\<close> for one of the property names the handler reads (none of them is on a
  built-in prototype): a \<open>TypeError\<close> on \<open>null\<close>, the own property of an object,
  \<open>undefined\<close> (\<open>None\<close>) on every other value.
\<close>

definition get_prop :: "json \<Rightarrow> jsstring \<Rightarrow> js_error + json option" where
  "get_prop v k =
     (case v of JNull \<Rightarrow> Inl TypeError | JObj kvs \<Rightarrow> Inr (map_of kvs k) | _ \<Rightarrow> Inr None)"

text \<open>\<open>v ?? d\<close>\<close>

definition nullish :: "json option \<Rightarrow> json \<Rightarrow> json" where
  "nullish v d = (case v of None \<Rightarrow> d | Some JNull \<Rightarrow> d | Some x \<Rightarrow> x)"

text \<open>\<open>v.trim()\<close>: only a string has the method.\<close>

definition call_trim :: "json \<Rightarrow> js_error + jsstring" where
  "call_trim v = (case v of JStr s \<Rightarrow> Inr (trim s) | _ \<Rightarrow> Inl TypeError)"

section \<open>The submission: sanitizer and validator\<close>

text \<open>
  \<open>ContactPayload\<close> as \<open>sanitizePayload\<close> returns it: the five fields that go
  through \<open>trim\<close> are strings, the three that do not (\<open>subject\<close>, \<open>budget\<close>,
  \<open>turnstileToken\<close>) hold the client's value as it came.
\<close>

record ContactPayload =
  name :: jsstring
  email :: jsstring
  phone :: jsstring
  subject :: json
  budget :: json
  deadline :: jsstring
  message :: jsstring
  turnstileToken :: json

text \<open>The fallback subject, a Japanese word for "inquiry" (6 code units).\<close>

definition default_subject :: jsstring where
  "default_subject = [0x304A, 0x554F, 0x3044, 0x5408, 0x308F, 0x305B]"

text \<open>\<open>payload.k ?? d\<close> and \<open>(payload.k ?? '').trim()\<close>\<close>

definition field_or :: "json \<Rightarrow> jsstring \<Rightarrow> jsstring \<Rightarrow> js_error + json" where
  "field_or payload k d = bindE (get_prop payload k) (\<lambda>v. Inr (nullish v (JStr d)))"

definition field_trimmed :: "json \<Rightarrow> jsstring \<Rightarrow> js_error + jsstring" where
  "field_trimmed payload k = bindE (field_or payload k []) call_trim"

definition sanitizePayload :: "json \<Rightarrow> js_error + ContactPayload" where
  "sanitizePayload payload =
     bindE (field_trimmed payload (U ''name'')) (\<lambda>v_name.
     bindE (field_trimmed payload (U ''email'')) (\<lambda>v_email.
     bindE (field_trimmed payload (U ''phone'')) (\<lambda>v_phone.
     bindE (field_or payload (U ''subject'') default_subject) (\<lambda>v_subject.
     bindE (field_or payload (U ''budget'') []) (\<lambda>v_budget.
     bindE (field_trimmed payload (U ''deadline'')) (\<lambda>v_deadline.
     bindE (field_trimmed payload (U ''message'')) (\<lambda>v_message.
     bindE (field_or payload (U ''turnstileToken'') []) (\<lambda>v_token.
     Inr \<lparr> name = v_name, email = v_email, phone = v_phone, subject = v_subject,
           budget = v_budget, deadline = v_deadline, message = v_message,
           turnstileToken = v_token \<rparr>))))))))"

text \<open>
  A trimmed string neither begins nor ends with white space; the five fields the
  sanitizer trims, each with its property name.
\<close>

definition trimmed :: "jsstring \<Rightarrow> bool" where
  "trimmed s \<longleftrightarrow> s = [] \<or> (\<not> is_ws (hd s) \<and> \<not> is_ws (last s))"


text \<open>
  The five validation messages (Japanese), in the order of the rules: the name needs
  2 characters or more; the address is malformed; choose a subject; the message needs
  10 characters or more; the verification token could not be obtained.
\<close>

definition msg_name :: jsstring where
  "msg_name = [0x304A, 0x540D, 0x524D, 0x306F] @ U ''2'' @
     [0x6587, 0x5B57, 0x4EE5, 0x4E0A, 0x3067, 0x5165, 0x529B, 0x3057, 0x3066, 0x304F,
      0x3060, 0x3055, 0x3044, 0x3002]"

definition msg_email :: jsstring where
  "msg_email =
     [0x30E1, 0x30FC, 0x30EB, 0x30A2, 0x30C9, 0x30EC, 0x30B9, 0x306E, 0x5F62, 0x5F0F,
      0x304C, 0x6B63, 0x3057, 0x304F, 0x3042, 0x308A, 0x307E, 0x305B, 0x3093, 0x3002]"

definition msg_subject :: jsstring where
  "msg_subject =
     [0x4EF6, 0x540D, 0x3092, 0x9078, 0x629E, 0x3057, 0x3066, 0x304F, 0x3060, 0x3055,
      0x3044, 0x3002]"

definition msg_message :: jsstring where
  "msg_message = [0x30E1, 0x30C3, 0x30BB, 0x30FC, 0x30B8, 0x306F] @ U ''10'' @
     [0x6587, 0x5B57, 0x4EE5, 0x4E0A, 0x3067, 0x5165, 0x529B, 0x3057, 0x3066, 0x304F,
      0x3060, 0x3055, 0x3044, 0x3002]"

definition msg_token :: jsstring where
  "msg_token =
     [0x691C, 0x8A3C, 0x30C8, 0x30FC, 0x30AF, 0x30F3, 0x304C, 0x53D6, 0x5F97, 0x3067,
      0x304D, 0x307E, 0x305B, 0x3093, 0x3067, 0x3057, 0x305F, 0x3002]"

definition validatePayload :: "ContactPayload \<Rightarrow> jsstring option" where
  "validatePayload payload =
     (if name payload = [] \<or> length (name payload) < 2 then Some msg_name
      else if email payload = [] \<or> \<not> rx_test emailRegex (email payload) then Some msg_email
      else if \<not> truthy (subject payload) then Some msg_subject
      else if message payload = [] \<or> length (message payload) < 10 then Some msg_message
      else if \<not> truthy (turnstileToken payload) then Some msg_token
      else None)"

text \<open>
  The validator as the specification words it: an ordered list of rules, each a
  predicate with its message, and the message of the first rule that does not hold.
\<close>

definition rule_name :: "ContactPayload \<Rightarrow> bool" where
  "rule_name p \<longleftrightarrow> name p \<noteq> [] \<and> 2 \<le> length (name p)"

definition rule_email :: "ContactPayload \<Rightarrow> bool" where
  "rule_email p \<longleftrightarrow> email p \<noteq> [] \<and> rx_test emailRegex (email p)"

definition rule_subject :: "ContactPayload \<Rightarrow> bool" where
  "rule_subject p \<longleftrightarrow> truthy (subject p)"

definition rule_message :: "ContactPayload \<Rightarrow> bool" where
  "rule_message p \<longleftrightarrow> message p \<noteq> [] \<and> 10 \<le> length (message p)"

definition rule_token :: "ContactPayload \<Rightarrow> bool" where
  "rule_token p \<longleftrightarrow> truthy (turnstileToken p)"

definition contact_rules :: "((ContactPayload \<Rightarrow> bool) \<times> jsstring) list" where
  "contact_rules =
     [(rule_name, msg_name), (rule_email, msg_email), (rule_subject, msg_subject),
      (rule_message, msg_message), (rule_token, msg_token)]"

definition first_violated ::
  "((ContactPayload \<Rightarrow> bool) \<times> jsstring) list \<Rightarrow> ContactPayload \<Rightarrow> jsstring option" where
  "first_violated rules p = map_option snd (find (\<lambda>r. \<not> fst r p) rules)"

section \<open>Configuration, requests and responses\<close>

text \<open>
  \<open>Env\<close>, as the interface declares it: four required strings and three optional
  ones (\<open>None\<close> when the variable is not set).
\<close>

record Env =
  RESEND_API_KEY :: jsstring
  FROM_EMAIL :: jsstring
  TO_EMAIL :: jsstring
  TURNSTILE_SECRET :: jsstring
  ALLOWED_ORIGINS :: "jsstring option"
  SITE_NAME :: "jsstring option"
  RESEND_DISABLED :: "jsstring option"

text \<open>
  What the handler reads of the incoming request: the method, \<open>url.pathname\<close>, the
  \<open>Origin\<close> and \<open>CF-Connecting-IP\<close> headers (\<open>None\<close> when \<open>headers.get\<close> returns
  \<open>null\<close>) and the outcome of \<open>request.json()\<close> (\<open>None\<close> when it rejects: the body
  is not JSON).
\<close>

record request =
  req_method :: jsstring
  req_pathname :: jsstring
  req_origin :: "jsstring option"
  req_cf_ip :: "jsstring option"
  req_json :: "json option"

text \<open>
  A response: the status, the value whose JSON text is the body (\<open>None\<close> for the
  \<open>null\<close> body of a preflight answer) and the header record handed to
  \<open>new Response\<close>, in insertion order.
\<close>

record response =
  status :: nat
  body :: "json option"
  headers :: "(jsstring \<times> jsstring) list"

text \<open>
  \<open>obj[k] = v\<close> on a record kept in insertion order, and the object spread
  \<open>{...base, ...ext}\<close>.
\<close>

fun obj_set :: "('k \<times> 'v) list \<Rightarrow> 'k \<Rightarrow> 'v \<Rightarrow> ('k \<times> 'v) list" where
  "obj_set [] k v = [(k, v)]"
| "obj_set ((k', v') # kvs) k v =
     (if k' = k then (k, v) # kvs else (k', v') # obj_set kvs k v)"

fun spread :: "('k \<times> 'v) list \<Rightarrow> ('k \<times> 'v) list \<Rightarrow> ('k \<times> 'v) list" where
  "spread base [] = base"
| "spread base ((k, v) # ext) = spread (obj_set base k v) ext"

definition resolveAllowedOrigin :: "jsstring option \<Rightarrow> jsstring option \<Rightarrow> jsstring option" where
  "resolveAllowedOrigin origin configured =
     (case origin of
        None \<Rightarrow> None
      | Some og \<Rightarrow>
          (case configured of
             None \<Rightarrow> None
           | Some cfg \<Rightarrow>
               if og = [] \<or> cfg = [] then None
               else
                 let entries = comma_entries cfg in
                 if U ''*'' \<in> set entries then Some og
                 else if og \<in> set entries then Some og else None))"

definition buildCorsHeaders :: "jsstring option \<Rightarrow> (jsstring \<times> jsstring) list" where
  "buildCorsHeaders origin =
     (let hs = [(U ''Access-Control-Allow-Methods'', U ''POST, OPTIONS''),
                (U ''Access-Control-Allow-Headers'', U ''Content-Type'')]
      in case origin of
           None \<Rightarrow> hs
         | Some og \<Rightarrow>
             if og \<noteq> []
             then obj_set (obj_set hs (U ''Access-Control-Allow-Origin'') og) (U ''Vary'') (U ''Origin'')
             else hs)"

definition buildCorsResponse :: "nat \<Rightarrow> jsstring option \<Rightarrow> response" where
  "buildCorsResponse st origin =
     \<lparr> status = st, body = None, headers = buildCorsHeaders origin \<rparr>"

definition buildJsonResponse ::
  "nat \<Rightarrow> json \<Rightarrow> jsstring option \<Rightarrow> (jsstring \<times> jsstring) list \<Rightarrow> response" where
  "buildJsonResponse st b origin extraHeaders =
     \<lparr> status = st, body = Some b,
       headers = spread (spread [(U ''Content-Type'', U ''application/json'')]
                           (buildCorsHeaders origin)) extraHeaders \<rparr>"

text \<open>The two envelopes: \<open>{ success: true }\<close> and \<open>{ success: false, error: msg }\<close>.\<close>

definition success_body :: json where
  "success_body = JObj [(U ''success'', JBool True)]"

definition error_body :: "jsstring \<Rightarrow> json" where
  "error_body msg = JObj [(U ''success'', JBool False), (U ''error'', JStr msg)]"

section \<open>The external services\<close>

text \<open>
  The global \<open>fetch\<close>: a call is its URL, method, headers and body; the network
  answers a call with a response or rejects. A form body is the list of fields
  appended to the \<open>URLSearchParams\<close>, as converted by \<open>append\<close>; a text
  body is the value given to
  \<open>JSON.stringify\<close>. Of a response the handler reads the status, \<open>text()\<close> and
  \<open>json()\<close> (\<open>None\<close> when the body is not JSON). Every function that may call out
  returns the calls it made, in order, beside its result.
\<close>

datatype fetch_body = FormBody "(jsstring \<times> jsstring) list" | TextBody json

record fetch_request =
  fr_url :: jsstring
  fr_method :: jsstring
  fr_headers :: "(jsstring \<times> jsstring) list"
  fr_body :: fetch_body

record http_response =
  hr_status :: nat
  hr_text :: jsstring
  hr_json :: "json option"

datatype fetch_outcome = Rejected | Responded http_response

type_synonym network = "fetch_request \<Rightarrow> fetch_outcome"

text \<open>\<open>response.ok\<close>\<close>

definition hr_ok :: "http_response \<Rightarrow> bool" where
  "hr_ok r \<longleftrightarrow> 200 \<le> hr_status r \<and> hr_status r \<le> 299"

definition siteverify_url :: jsstring where
  "siteverify_url = U ''https://challenges.cloudflare.com/turnstile/v0/siteverify''"

definition resend_url :: jsstring where
  "resend_url = U ''https://api.resend.com/emails''"

text \<open>
  \<open>URLSearchParams.append\<close> converts its arguments to scalar value strings: a
  high surrogate followed by a low one stays, every other surrogate code unit
  becomes U+FFFD.
\<close>

definition is_high_surrogate :: "cu \<Rightarrow> bool" where
  "is_high_surrogate c \<longleftrightarrow> 0xD800 \<le> c \<and> c \<le> 0xDBFF"

definition is_low_surrogate :: "cu \<Rightarrow> bool" where
  "is_low_surrogate c \<longleftrightarrow> 0xDC00 \<le> c \<and> c \<le> 0xDFFF"

fun to_usv :: "jsstring \<Rightarrow> jsstring" where
  "to_usv [] = []"
| "to_usv [c] = (if is_high_surrogate c \<or> is_low_surrogate c then [0xFFFD] else [c])"
| "to_usv (c # d # cs) =
     (if is_high_surrogate c \<and> is_low_surrogate d then c # d # to_usv cs
      else if is_high_surrogate c \<or> is_low_surrogate c then 0xFFFD # to_usv (d # cs)
      else c # to_usv (d # cs))"

text \<open>The call \<open>verifyTurnstile\<close> makes, for the token as a string.\<close>

definition siteverify_call :: "jsstring \<Rightarrow> jsstring \<Rightarrow> jsstring option \<Rightarrow> fetch_request" where
  "siteverify_call secret tok ip =
     \<lparr> fr_url = siteverify_url, fr_method = U ''POST'',
       fr_headers = [(U ''Content-Type'', U ''application/x-www-form-urlencoded'')],
       fr_body = FormBody
         ([(U ''secret'', to_usv secret), (U ''response'', to_usv tok)] @
          (case ip of
             None \<Rightarrow> []
           | Some a \<Rightarrow> if a \<noteq> [] then [(U ''remoteip'', to_usv a)] else [])) \<rparr>"

definition verifyTurnstile ::
  "json \<Rightarrow> jsstring \<Rightarrow> jsstring option \<Rightarrow> network \<Rightarrow> (js_error + bool) \<times> fetch_request list" where
  "verifyTurnstile token secret ip net =
     (if secret = [] then (Inl (Error (U ''TURNSTILE_SECRET is not configured'')), [])
      else
        case to_string token of
          Inl e \<Rightarrow> (Inl e, [])
        | Inr tok \<Rightarrow>
            let call = siteverify_call secret tok ip
            in case net call of
                 Rejected \<Rightarrow> (Inl FetchFailed, [call])
               | Responded r \<Rightarrow>
                   if \<not> hr_ok r then (Inr False, [call])
                   else
                     (case hr_json r of
                        None \<Rightarrow> (Inl SyntaxError, [call])
                      | Some result \<Rightarrow>
                          (case get_prop result (U ''success'') of
                             Inl e \<Rightarrow> (Inl e, [call])
                           | Inr None \<Rightarrow> (Inr False, [call])
                           | Inr (Some v) \<Rightarrow> (Inr (truthy v), [call]))))"

section \<open>The mail bodies\<close>

text \<open>\<open>v || '-'\<close>, on a string field and on a field that holds any value.\<close>

definition str_or_dash :: "jsstring \<Rightarrow> jsstring" where
  "str_or_dash s = (if s \<noteq> [] then s else U ''-'')"

definition or_dash :: "json \<Rightarrow> json" where
  "or_dash v = (if truthy v then v else JStr (U ''-''))"

definition buildTextBody :: "ContactPayload \<Rightarrow> js_error + jsstring" where
  "buildTextBody payload =
     bindE (to_string (subject payload)) (\<lambda>t_subject.
     bindE (to_string (or_dash (budget payload))) (\<lambda>t_budget.
     Inr (str_join [0x0A]
       [U ''Name: '' @ name payload,
        U ''Email: '' @ email payload,
        U ''Phone: '' @ str_or_dash (phone payload),
        U ''Subject: '' @ t_subject,
        U ''Budget: '' @ t_budget,
        U ''Deadline: '' @ str_or_dash (deadline payload),
        [],
        U ''Message:'',
        message payload])))"

text \<open>
  \<open>escape\<close>: \<open>value.replace(/[&<>]/g, (char) => ({...}[char] ?? char))\<close>. Every
  code unit in the class is replaced by what the callback returns for it; a value
  that is not a string has no \<open>replace\<close> method.
\<close>

definition amp_lt_gt :: "cu \<Rightarrow> bool" where
  "amp_lt_gt c \<longleftrightarrow> c = 0x26 \<or> c = 0x3C \<or> c = 0x3E"

definition escape_table :: "(jsstring \<times> jsstring) list" where
  "escape_table = [(U ''&'', U ''&amp;''), (U ''<'', U ''&lt;''), (U ''>'', U ''&gt;'')]"

definition escape_callback :: "jsstring \<Rightarrow> jsstring" where
  "escape_callback ch = (case map_of escape_table ch of Some r \<Rightarrow> r | None \<Rightarrow> ch)"

definition replace_class :: "(cu \<Rightarrow> bool) \<Rightarrow> (jsstring \<Rightarrow> jsstring) \<Rightarrow> jsstring \<Rightarrow> jsstring" where
  "replace_class cls f s = concat (map (\<lambda>c. if cls c then f [c] else [c]) s)"

definition escape_str :: "jsstring \<Rightarrow> jsstring" where
  "escape_str s = replace_class amp_lt_gt escape_callback s"

definition escape :: "json \<Rightarrow> js_error + jsstring" where
  "escape v = (case v of JStr s \<Rightarrow> Inr (escape_str s) | _ \<Rightarrow> Inl TypeError)"


text \<open>The fixed text of the row template and of the page template, between the holes.\<close>

definition html_head :: jsstring where
  "html_head =
     U ''<!doctype html>'' @ [0x0A] @
     U ''<html lang=\"ja\">'' @ [0x0A] @
     U ''  <body style=\"font-family:Segoe UI,Helvetica,Arial,sans-serif;background:#f6f6f7;padding:16px;\">'' @ [0x0A] @
     U ''    <table cellpadding=\"0\" cellspacing=\"0\" style=\"width:100%;max-width:600px;margin:auto;background:#ffffff;border-radius:8px;border:1px solid #e0e0e0;\">'' @ [0x0A] @
     U ''      <tr>'' @ [0x0A] @
     U ''        <td style=\"padding:16px 24px;border-bottom:1px solid #f0f0f0;\">'' @ [0x0A] @
     U ''          <strong>''"

definition html_after_site :: jsstring where
  "html_after_site =
     U ''</strong>'' @ [0x0A] @
     U ''          <div style=\"color:#666;font-size:14px;margin-top:4px;\">'' @ [0x65B0, 0x3057, 0x3044, 0x304A, 0x554F, 0x3044, 0x5408, 0x308F, 0x305B, 0x304C, 0x5C4A, 0x304D, 0x307E, 0x3057, 0x305F, 0x3002] @ U ''</div>'' @ [0x0A] @
     U ''        </td>'' @ [0x0A] @
     U ''      </tr>'' @ [0x0A] @
     U ''      <tr>'' @ [0x0A] @
     U ''        <td>'' @ [0x0A] @
     U ''          <table style=\"width:100%;font-size:14px;\">'' @ [0x0A] @
     U ''            ''"

definition html_row_gap :: jsstring where
  "html_row_gap =
     [0x0A] @
     U ''            ''"

definition html_row_gap_sp :: jsstring where
  "html_row_gap_sp =
     U '' '' @ [0x0A] @
     U ''            ''"

definition html_before_message :: jsstring where
  "html_before_message =
     U '' '' @ [0x0A] @
     U ''          </table>'' @ [0x0A] @
     U ''          <div style=\"padding:16px 24px;border-top:1px solid #f0f0f0;\">'' @ [0x0A] @
     U ''            <div style=\"font-weight:600;margin-bottom:8px;\">'' @ [0x30E1, 0x30C3, 0x30BB, 0x30FC, 0x30B8] @ U ''</div>'' @ [0x0A] @
     U ''            <div style=\"white-space:pre-wrap;line-height:1.6;color:#333;\">''"

definition html_tail :: jsstring where
  "html_tail =
     U ''</div>'' @ [0x0A] @
     U ''          </div>'' @ [0x0A] @
     U ''        </td>'' @ [0x0A] @
     U ''      </tr>'' @ [0x0A] @
     U ''    </table>'' @ [0x0A] @
     U ''  </body>'' @ [0x0A] @
     U ''</html>''"

definition row_open :: jsstring where
  "row_open = U ''<tr><th align=\"left\" style=\"padding:4px 8px;\">''"

definition row_mid :: jsstring where
  "row_mid = U ''</th><td style=\"padding:4px 8px;\">''"

definition row_close :: jsstring where
  "row_close = U ''</td></tr>''"

definition row :: "jsstring \<Rightarrow> json \<Rightarrow> js_error + jsstring" where
  "row label v = bindE (escape v) (\<lambda>e. Inr (row_open @ label @ row_mid @ e @ row_close))"

text \<open>
  The row labels (Japanese): name, mail, telephone, subject, budget, desired
  delivery date.
\<close>

definition label_name :: jsstring where "label_name = [0x304A, 0x540D, 0x524D]"

definition label_email :: jsstring where "label_email = [0x30E1, 0x30FC, 0x30EB]"

definition label_phone :: jsstring where "label_phone = [0x96FB, 0x8A71]"

definition label_subject :: jsstring where "label_subject = [0x4EF6, 0x540D]"

definition label_budget :: jsstring where "label_budget = [0x3054, 0x4E88, 0x7B97]"

definition label_deadline :: jsstring where "label_deadline = [0x5E0C, 0x671B, 0x7D0D, 0x671F]"

definition buildHtmlBody :: "ContactPayload \<Rightarrow> Env \<Rightarrow> js_error + jsstring" where
  "buildHtmlBody payload env =
     bindE (escape (JStr (case SITE_NAME env of None \<Rightarrow> U ''WANYA Contact'' | Some n \<Rightarrow> n))) (\<lambda>h_site.
     bindE (row label_name (JStr (name payload))) (\<lambda>r_name.
     bindE (row label_email (JStr (email payload))) (\<lambda>r_email.
     bindE (row label_phone (JStr (str_or_dash (phone payload)))) (\<lambda>r_phone.
     bindE (row label_subject (subject payload)) (\<lambda>r_subject.
     bindE (row label_budget (or_dash (budget payload))) (\<lambda>r_budget.
     bindE (row label_deadline (JStr (str_or_dash (deadline payload)))) (\<lambda>r_deadline.
     bindE (escape (JStr (message payload))) (\<lambda>h_message.
     Inr (html_head @ h_site @ html_after_site @
          r_name @ html_row_gap @
          r_email @ html_row_gap @
          r_phone @ html_row_gap_sp @
          r_subject @ html_row_gap @
          r_budget @ html_row_gap_sp @
          r_deadline @ html_before_message @
          h_message @ html_tail)))))))))"

section \<open>The mail dispatcher\<close>

text \<open>
  The subject line and the two bodies, in the order the source evaluates them, and
  the call to the mail API built from them.
\<close>

definition mail_parts :: "ContactPayload \<Rightarrow> Env \<Rightarrow> js_error + jsstring \<times> jsstring \<times> jsstring" where
  "mail_parts payload env =
     bindE (to_string (subject payload)) (\<lambda>t_subject.
     bindE (buildTextBody payload) (\<lambda>textBody.
     bindE (buildHtmlBody payload env) (\<lambda>htmlBody.
     Inr (U ''['' @ (case SITE_NAME env of None \<Rightarrow> U ''WANYA'' | Some n \<Rightarrow> n) @ U ''] '' @
            t_subject @ U '' from '' @ name payload,
          textBody, htmlBody))))"

definition resend_call ::
  "ContactPayload \<Rightarrow> Env \<Rightarrow> jsstring list \<Rightarrow> jsstring \<times> jsstring \<times> jsstring \<Rightarrow> fetch_request" where
  "resend_call payload env toList parts =
     (case parts of (subject_line, textBody, htmlBody) \<Rightarrow>
        \<lparr> fr_url = resend_url, fr_method = U ''POST'',
          fr_headers = [(U ''Authorization'', U ''Bearer '' @ RESEND_API_KEY env),
                        (U ''Content-Type'', U ''application/json'')],
          fr_body = TextBody (JObj
            [(U ''from'', JStr (FROM_EMAIL env)),
             (U ''to'', JArr (map JStr toList)),
             (U ''reply_to'', JStr (email payload)),
             (U ''subject'', JStr subject_line),
             (U ''text'', JStr textBody),
             (U ''html'', JStr htmlBody)]) \<rparr>)"

definition sendResendEmail ::
  "ContactPayload \<Rightarrow> Env \<Rightarrow> network \<Rightarrow> (js_error + unit) \<times> fetch_request list" where
  "sendResendEmail payload env net =
     (if RESEND_DISABLED env = Some (U ''true'') then (Inr (), [])
      else
        let toList = comma_entries (TO_EMAIL env) in
        if toList = [] then (Inl (Error (U ''TO_EMAIL is not configured'')), [])
        else
          case mail_parts payload env of
            Inl e \<Rightarrow> (Inl e, [])
          | Inr parts \<Rightarrow>
              let call = resend_call payload env toList parts
              in case net call of
                   Rejected \<Rightarrow> (Inl FetchFailed, [call])
                 | Responded r \<Rightarrow>
                     if \<not> hr_ok r
                     then (Inl (Error (U ''Resend API error: '' @ show_nat (hr_status r) @ U '' '' @
                                       hr_text r)), [call])
                     else (Inr (), [call]))"

section \<open>The request handler\<close>

text \<open>
  \<open>worker.fetch\<close>. The result is the response, or \<open>Inl\<close> the exception that leaves
  the handler uncaught (the runtime then answers with its own server error), beside
  the outbound calls made. The 502 message (Japanese) says that sending the mail
  failed and asks to try again later.
\<close>

definition msg_delivery_failed :: jsstring where
  "msg_delivery_failed =
     [0x30E1, 0x30FC, 0x30EB, 0x9001, 0x4FE1, 0x306B, 0x5931, 0x6557, 0x3057, 0x307E,
      0x3057, 0x305F, 0x3002, 0x6642, 0x9593, 0x3092, 0x304A, 0x3044, 0x3066, 0x518D,
      0x5EA6, 0x304A, 0x8A66, 0x3057, 0x304F, 0x3060, 0x3055, 0x3044, 0x3002]"

definition parse_and_sanitize :: "request \<Rightarrow> js_error + ContactPayload" where
  "parse_and_sanitize req =
     (case req_json req of None \<Rightarrow> Inl SyntaxError | Some raw \<Rightarrow> sanitizePayload raw)"

definition worker_fetch ::
  "request \<Rightarrow> Env \<Rightarrow> network \<Rightarrow> (js_error + response) \<times> fetch_request list" where
  "worker_fetch req env net =
     (let allowedOrigin = resolveAllowedOrigin (req_origin req) (ALLOWED_ORIGINS env) in
      if req_method req = U ''OPTIONS'' then (Inr (buildCorsResponse 204 allowedOrigin), [])
      else if req_pathname req \<noteq> U ''/api/contact''
      then (Inr (buildJsonResponse 404 (error_body (U ''Not found'')) allowedOrigin []), [])
      else if req_method req \<noteq> U ''POST''
      then (Inr (buildJsonResponse 405 (error_body (U ''Method not allowed'')) allowedOrigin
                   [(U ''Allow'', U ''POST, OPTIONS'')]), [])
      else
        case parse_and_sanitize req of
          Inl err \<Rightarrow>
            (Inr (buildJsonResponse 400 (error_body (U ''Invalid JSON payload'')) allowedOrigin []), [])
        | Inr payload \<Rightarrow>
            (case validatePayload payload of
               Some validationError \<Rightarrow>
                 (Inr (buildJsonResponse 422 (error_body validationError) allowedOrigin []), [])
             | None \<Rightarrow>
                 (case verifyTurnstile (turnstileToken payload) (TURNSTILE_SECRET env) (req_cf_ip req) net of
                    (Inl e, calls) \<Rightarrow> (Inl e, calls)
                  | (Inr turnstilePassed, calls) \<Rightarrow>
                      if \<not> turnstilePassed
                      then (Inr (buildJsonResponse 403 (error_body (U ''Bot verification failed''))
                                   allowedOrigin []), calls)
                      else
                        (case sendResendEmail payload env net of
                           (Inr u, calls') \<Rightarrow>
                             (Inr (buildJsonResponse 200 success_body allowedOrigin []), calls @ calls')
                         | (Inl error, calls') \<Rightarrow>
                             (Inr (buildJsonResponse 502 (error_body msg_delivery_failed)
                                     allowedOrigin []), calls @ calls')))))"

section \<open>Sample inputs\<close>

definition sample_bad_email :: ContactPayload where
  "sample_bad_email = \<lparr> name = U ''Al'', email = U ''a@b'', phone = [], subject = JStr (U ''Hi''),
     budget = JStr [], deadline = [], message = U ''short'', turnstileToken = JStr [] \<rparr>"

definition sample_get_other :: request where
  "sample_get_other = \<lparr> req_method = U ''GET'', req_pathname = U ''/api/other'',
     req_origin = None, req_cf_ip = None, req_json = None \<rparr>"

definition sample_origin_request :: request where
  "sample_origin_request = \<lparr> req_method = U ''GET'', req_pathname = U ''/api/contact'',
     req_origin = Some (U ''https://b.com''), req_cf_ip = None, req_json = None \<rparr>"

definition sample_env :: Env where
  "sample_env = \<lparr> RESEND_API_KEY = U ''test-api-key'', FROM_EMAIL = U ''contact@example.com'',
     TO_EMAIL = U ''owner@example.com'', TURNSTILE_SECRET = U ''test-secret'',
     ALLOWED_ORIGINS = Some (U ''https://a.com,https://b.com''), SITE_NAME = Some (U ''Test WANYA''),
     RESEND_DISABLED = Some (U ''true'') \<rparr>"



definition sample_payload :: json where
  "sample_payload = JObj
     [(U ''name'', JStr (U '' Alice '')),
      (U ''email'', JStr (U ''a@b.co'')),
      (U ''phone'', JStr []),
      (U ''subject'', JStr (U ''Hello'')),
      (U ''budget'', JStr (U ''under_10000'')),
      (U ''deadline'', JNull),
      (U ''message'', JStr (U ''This is a test.'')),
      (U ''turnstileToken'', JStr (U ''token-1''))]"

definition sample_sanitized :: ContactPayload where
  "sample_sanitized =
     \<lparr> name = U ''Alice'', email = U ''a@b.co'', phone = [], subject = JStr (U ''Hello''),
       budget = JStr (U ''under_10000''), deadline = [], message = U ''This is a test.'',
       turnstileToken = JStr (U ''token-1'') \<rparr>"


definition sample_request :: request where
  "sample_request = \<lparr> req_method = U ''POST'', req_pathname = U ''/api/contact'',
     req_origin = Some (U ''https://b.com''), req_cf_ip = Some (U ''127.0.0.1''),
     req_json = Some sample_payload \<rparr>"

definition sample_env_live :: Env where
  "sample_env_live = sample_env \<lparr> RESEND_DISABLED := None \<rparr>"

definition sample_env_no_recipient :: Env where
  "sample_env_no_recipient = sample_env \<lparr> TO_EMAIL := U '' , '', RESEND_DISABLED := None \<rparr>"

definition verdict_response :: "bool \<Rightarrow> http_response" where
  "verdict_response b = \<lparr> hr_status = 200, hr_text = U ''{}'',
     hr_json = Some (JObj [(U ''success'', JBool b)]) \<rparr>"

definition failure_response :: http_response where
  "failure_response = \<lparr> hr_status = 500, hr_text = U ''boom'', hr_json = None \<rparr>"

definition sample_net_ok :: network where
  "sample_net_ok call =
     (if fr_url call = siteverify_url then Responded (verdict_response True)
      else Responded \<lparr> hr_status = 200, hr_text = U ''{}'', hr_json = Some (JObj []) \<rparr>)"



definition sample_net_mail_down :: network where
  "sample_net_mail_down call =
     (if fr_url call = siteverify_url then Responded (verdict_response True)
      else Responded failure_response)"


definition sample_other_origin_request :: request where
  "sample_other_origin_request = \<lparr> req_method = U ''GET'', req_pathname = U ''/api/contact'',
     req_origin = Some (U ''https://c.com''), req_cf_ip = None, req_json = None \<rparr>"

definition sample_env_spaced :: Env where
  "sample_env_spaced = sample_env \<lparr> ALLOWED_ORIGINS := Some (U '' https://a.com , https://b.com '') \<rparr>"

definition sample_env_wildcard :: Env where
  "sample_env_wildcard = sample_env \<lparr> ALLOWED_ORIGINS := Some (U ''https://a.com, *'') \<rparr>"









section \<open>Trimming and splitting\<close>

lemma last_dropWhile: "dropWhile P xs \<noteq> [] \<Longrightarrow> last (dropWhile P xs) = last xs"
  by (induction xs) auto

lemma trimmed_trim: "trimmed (trim s)"
proof (cases "trim s = []")
  case True
  then show ?thesis by (simp add: trimmed_def)
next
  case False
  let ?t = "dropWhile is_ws s"
  let ?u = "dropWhile is_ws (rev ?t)"
  have ts: "trim s = rev ?u" by (simp add: trim_def)
  with False have u: "?u \<noteq> []" by simp
  have t: "?t \<noteq> []"
  proof
    assume a: "?t = []"
    have "?u = []" unfolding a by simp
    with u show False by blast
  qed
  have "\<not> is_ws (hd ?u)" using u by (rule hd_dropWhile)
  then have l: "\<not> is_ws (last (trim s))" using u by (simp add: ts last_rev)
  have "hd (trim s) = last ?u" using u by (simp add: ts hd_rev)
  also have "\<dots> = last (rev ?t)" using u by (rule last_dropWhile)
  also have "\<dots> = hd ?t" using t by (simp add: last_rev)
  finally have "hd (trim s) = hd ?t" .
  moreover have "\<not> is_ws (hd ?t)" using t by (rule hd_dropWhile)
  ultimately show ?thesis using l by (simp add: trimmed_def)
qed



lemma split_acc_not_Nil: "split_acc d acc s \<noteq> []"
  by (induction s arbitrary: acc) auto

lemma str_join_Cons: "xs \<noteq> [] \<Longrightarrow> str_join sep (x # xs) = x @ sep @ str_join sep xs"
  by (cases xs) simp_all

lemma str_join_split_acc: "str_join [d] (split_acc d acc s) = rev acc @ s"
  by (induction s arbitrary: acc) (simp_all add: str_join_Cons split_acc_not_Nil)

lemma split_acc_no_separator:
  "d \<notin> set acc \<Longrightarrow> \<forall>piece \<in> set (split_acc d acc s). d \<notin> set piece"
proof (induction s arbitrary: acc)
  case Nil
  then show ?case by simp
next
  case (Cons c cs)
  show ?case
  proof (cases "c = d")
    case True
    have "\<forall>piece \<in> set (split_acc d [] cs). d \<notin> set piece"
      by (rule Cons.IH) simp
    with True Cons.prems show ?thesis by simp
  next
    case False
    with Cons.prems have "d \<notin> set (c # acc)" by simp
    then have "\<forall>piece \<in> set (split_acc d (c # acc) cs). d \<notin> set piece"
      by (rule Cons.IH)
    with False show ?thesis by simp
  qed
qed

lemma str_split_pieces:
  "str_join [d] (str_split d s) = s \<and> (\<forall>piece \<in> set (str_split d s). d \<notin> set piece)"
  using split_acc_no_separator [of d "[]" s] by (simp add: str_split_def str_join_split_acc)

lemma comma_entries_iff:
  "e \<in> set (comma_entries cfg) \<longleftrightarrow> e \<noteq> [] \<and> (\<exists>piece \<in> set (str_split 0x2C cfg). e = trim piece)"
  by (auto simp: comma_entries_def)

lemma comma_entries_trimmed: "\<forall>e \<in> set (comma_entries cfg). trimmed e"
  by (auto simp: comma_entries_def trimmed_trim)

lemma trim_strips:
  "\<exists>pre post. s = pre @ trim s @ post \<and> (\<forall>x \<in> set pre. is_ws x) \<and> (\<forall>x \<in> set post. is_ws x)"
proof -
  let ?t = "dropWhile is_ws s"
  let ?pre = "takeWhile is_ws s"
  let ?post = "rev (takeWhile is_ws (rev ?t))"
  have "rev (rev ?t) = rev (takeWhile is_ws (rev ?t) @ dropWhile is_ws (rev ?t))"
    by (simp only: takeWhile_dropWhile_id)
  then have "?t = rev (dropWhile is_ws (rev ?t)) @ ?post"
    by (simp only: rev_rev_ident rev_append)
  then have t: "?t = trim s @ ?post" by (simp only: trim_def)
  have "s = ?pre @ ?t" by simp
  with t have "s = ?pre @ trim s @ ?post" by simp
  moreover have "\<forall>x \<in> set ?pre. is_ws x" by (auto dest: set_takeWhileD)
  moreover have "\<forall>x \<in> set ?post. is_ws x" by (auto dest: set_takeWhileD)
  ultimately show ?thesis by blast
qed

section \<open>What the address pattern accepts\<close>

lemma nullable_lang: "nullable r \<longleftrightarrow> [] \<in> lang r"
  by (induction r) (auto intro: star_nil)

lemma star_lang_Cons:
  "star_lang L (c # w) \<longleftrightarrow> (\<exists>u v. w = u @ v \<and> c # u \<in> L \<and> star_lang L v)"
proof
  assume "star_lang L (c # w)"
  then obtain u v where uv: "c # w = u @ v" "u \<in> L" "u \<noteq> []" "star_lang L v"
    by (subst (asm) star_lang.simps) auto
  then obtain u' where "u = c # u'" "w = u' @ v" by (cases u) auto
  with uv show "\<exists>u v. w = u @ v \<and> c # u \<in> L \<and> star_lang L v" by blast
next
  assume "\<exists>u v. w = u @ v \<and> c # u \<in> L \<and> star_lang L v"
  then obtain u v where "w = u @ v" "c # u \<in> L" "star_lang L v" by blast
  then have "star_lang L ((c # u) @ v)" by (intro star_app) simp_all
  with \<open>w = u @ v\<close> show "star_lang L (c # w)" by simp
qed

lemma Cons_in_Seq:
  "c # w \<in> lang (RSeq r s) \<longleftrightarrow>
     ([] \<in> lang r \<and> c # w \<in> lang s) \<or> (\<exists>u v. w = u @ v \<and> c # u \<in> lang r \<and> v \<in> lang s)"
proof
  assume "c # w \<in> lang (RSeq r s)"
  then obtain u v where uv: "c # w = u @ v" "u \<in> lang r" "v \<in> lang s" by auto
  show "([] \<in> lang r \<and> c # w \<in> lang s) \<or> (\<exists>u v. w = u @ v \<and> c # u \<in> lang r \<and> v \<in> lang s)"
  proof (cases u)
    case Nil
    with uv show ?thesis by simp
  next
    case (Cons a u')
    with uv have "a = c" "w = u' @ v" by simp_all
    with uv Cons show ?thesis by blast
  qed
next
  assume "([] \<in> lang r \<and> c # w \<in> lang s) \<or> (\<exists>u v. w = u @ v \<and> c # u \<in> lang r \<and> v \<in> lang s)"
  then show "c # w \<in> lang (RSeq r s)"
  proof
    assume "[] \<in> lang r \<and> c # w \<in> lang s"
    then have "\<exists>u v. c # w = u @ v \<and> u \<in> lang r \<and> v \<in> lang s"
      by (intro exI [of _ "[]"] exI [of _ "c # w"]) simp
    then show ?thesis by simp
  next
    assume "\<exists>u v. w = u @ v \<and> c # u \<in> lang r \<and> v \<in> lang s"
    then obtain u v where "w = u @ v" "c # u \<in> lang r" "v \<in> lang s" by blast
    then have "\<exists>u' v'. c # w = u' @ v' \<and> u' \<in> lang r \<and> v' \<in> lang s"
      by (intro exI [of _ "c # u"] exI [of _ v]) simp
    then show ?thesis by simp
  qed
qed

lemma deriv_lang: "w \<in> lang (deriv c r) \<longleftrightarrow> c # w \<in> lang r"
proof (induction r arbitrary: w)
  case RZero
  show ?case by simp
next
  case ROne
  show ?case by simp
next
  case (RCls P)
  show ?case by simp
next
  case (RAlt r s)
  then show ?case by simp
next
  case (RSeq r s)
  have "w \<in> lang (deriv c (RSeq r s)) \<longleftrightarrow>
      (nullable r \<and> w \<in> lang (deriv c s)) \<or> (\<exists>u v. w = u @ v \<and> u \<in> lang (deriv c r) \<and> v \<in> lang s)"
    by (cases "nullable r") (simp_all add: disj_commute)
  also have "\<dots> \<longleftrightarrow>
      ([] \<in> lang r \<and> c # w \<in> lang s) \<or> (\<exists>u v. w = u @ v \<and> c # u \<in> lang r \<and> v \<in> lang s)"
    by (simp only: RSeq.IH nullable_lang)
  also have "\<dots> \<longleftrightarrow> c # w \<in> lang (RSeq r s)"
    by (simp only: Cons_in_Seq)
  finally show ?case .
next
  case (RStar r)
  have "w \<in> lang (deriv c (RStar r)) \<longleftrightarrow>
      (\<exists>u v. w = u @ v \<and> u \<in> lang (deriv c r) \<and> star_lang (lang r) v)"
    by simp
  also have "\<dots> \<longleftrightarrow> (\<exists>u v. w = u @ v \<and> c # u \<in> lang r \<and> star_lang (lang r) v)"
    by (simp only: RStar.IH)
  also have "\<dots> \<longleftrightarrow> star_lang (lang r) (c # w)"
    by (simp only: star_lang_Cons)
  also have "\<dots> \<longleftrightarrow> c # w \<in> lang (RStar r)"
    by simp
  finally show ?case .
qed

lemma rx_test_lang: "rx_test r s \<longleftrightarrow> s \<in> lang r"
  by (induction s arbitrary: r) (simp_all add: nullable_lang deriv_lang)

lemma star_lang_class:
  "star_lang {[c] | c. P c} w \<longleftrightarrow> (\<forall>x \<in> set w. P x)"
proof (induction w)
  case Nil
  show ?case by (simp add: star_nil)
next
  case (Cons a w)
  show ?case unfolding star_lang_Cons using Cons by auto
qed

lemma lang_Plus_class: "w \<in> lang (RPlus (RCls P)) \<longleftrightarrow> w \<noteq> [] \<and> (\<forall>x \<in> set w. P x)"
proof (cases w)
  case Nil
  then show ?thesis by (simp add: RPlus_def)
next
  case (Cons a v)
  have "a # v \<in> lang (RPlus (RCls P)) \<longleftrightarrow> v \<in> lang (deriv a (RPlus (RCls P)))"
    by (simp only: deriv_lang)
  also have "\<dots> \<longleftrightarrow> P a \<and> star_lang {[c] | c. P c} v"
    by (simp add: RPlus_def)
  finally show ?thesis using Cons by (simp add: star_lang_class)
qed

lemma mem_lang_Seq: "w \<in> lang (RSeq r s) \<longleftrightarrow> (\<exists>u v. w = u @ v \<and> u \<in> lang r \<and> v \<in> lang s)"
  by auto

lemma mem_lang_unit: "w \<in> lang (RCls (\<lambda>c. c = k)) \<longleftrightarrow> w = [k]"
  by auto

lemma emailRegex_accepts:
  "rx_test emailRegex s \<longleftrightarrow>
     (\<exists>a b c. s = a @ [0x40] @ b @ [0x2E] @ c \<and> a \<noteq> [] \<and> b \<noteq> [] \<and> c \<noteq> [] \<and>
        (\<forall>x \<in> set (a @ b @ c). \<not> is_ws x \<and> x \<noteq> 0x40))"
proof
  assume "rx_test emailRegex s"
  then have "s \<in> lang emailRegex" by (simp only: rx_test_lang)
  then obtain a r1 where 1: "s = a @ r1" "a \<in> lang (RPlus (RCls not_space_at))"
    "r1 \<in> lang (RSeq (RCls (\<lambda>c. c = 0x40)) (RSeq (RPlus (RCls not_space_at))
             (RSeq (RCls (\<lambda>c. c = 0x2E)) (RPlus (RCls not_space_at)))))"
    unfolding emailRegex_def mem_lang_Seq [of s] by blast
  from 1(3) obtain r2 where 2: "r1 = [0x40] @ r2"
    "r2 \<in> lang (RSeq (RPlus (RCls not_space_at)) (RSeq (RCls (\<lambda>c. c = 0x2E)) (RPlus (RCls not_space_at))))"
    unfolding mem_lang_Seq [of r1] mem_lang_unit by blast
  from 2(2) obtain b r3 where 3: "r2 = b @ r3" "b \<in> lang (RPlus (RCls not_space_at))"
    "r3 \<in> lang (RSeq (RCls (\<lambda>c. c = 0x2E)) (RPlus (RCls not_space_at)))"
    unfolding mem_lang_Seq [of r2] by blast
  from 3(3) obtain c where 4: "r3 = [0x2E] @ c" "c \<in> lang (RPlus (RCls not_space_at))"
    unfolding mem_lang_Seq [of r3] mem_lang_unit by blast
  have "s = a @ [0x40] @ b @ [0x2E] @ c" using 1(1) 2(1) 3(1) 4(1) by simp
  moreover have "a \<noteq> [] \<and> b \<noteq> [] \<and> c \<noteq> [] \<and> (\<forall>x \<in> set (a @ b @ c). \<not> is_ws x \<and> x \<noteq> 0x40)"
    using 1(2) 3(2) 4(2) unfolding lang_Plus_class not_space_at_def by auto
  ultimately show "\<exists>a b c. s = a @ [0x40] @ b @ [0x2E] @ c \<and> a \<noteq> [] \<and> b \<noteq> [] \<and> c \<noteq> [] \<and>
        (\<forall>x \<in> set (a @ b @ c). \<not> is_ws x \<and> x \<noteq> 0x40)" by blast
next
  assume "\<exists>a b c. s = a @ [0x40] @ b @ [0x2E] @ c \<and> a \<noteq> [] \<and> b \<noteq> [] \<and> c \<noteq> [] \<and>
        (\<forall>x \<in> set (a @ b @ c). \<not> is_ws x \<and> x \<noteq> 0x40)"
  then obtain a b c where s: "s = a @ [0x40] @ b @ [0x2E] @ c"
    and ne: "a \<noteq> []" "b \<noteq> []" "c \<noteq> []"
    and cl: "\<forall>x \<in> set (a @ b @ c). \<not> is_ws x \<and> x \<noteq> 0x40" by blast
  from ne cl have m: "a \<in> lang (RPlus (RCls not_space_at))" "b \<in> lang (RPlus (RCls not_space_at))"
    "c \<in> lang (RPlus (RCls not_space_at))"
    unfolding lang_Plus_class not_space_at_def by auto
  have "[0x2E] @ c \<in> lang (RSeq (RCls (\<lambda>c. c = 0x2E)) (RPlus (RCls not_space_at)))"
    unfolding mem_lang_Seq [of "[0x2E] @ c"] mem_lang_unit using m(3) by blast
  then have "b @ [0x2E] @ c \<in> lang (RSeq (RPlus (RCls not_space_at))
      (RSeq (RCls (\<lambda>c. c = 0x2E)) (RPlus (RCls not_space_at))))"
    unfolding mem_lang_Seq [of "b @ [0x2E] @ c"] using m(2) by blast
  then have "[0x40] @ b @ [0x2E] @ c \<in> lang (RSeq (RCls (\<lambda>c. c = 0x40)) (RSeq (RPlus (RCls not_space_at))
      (RSeq (RCls (\<lambda>c. c = 0x2E)) (RPlus (RCls not_space_at)))))"
    unfolding mem_lang_Seq [of "[0x40] @ b @ [0x2E] @ c"] mem_lang_unit by blast
  then have "a @ [0x40] @ b @ [0x2E] @ c \<in> lang emailRegex"
    unfolding emailRegex_def mem_lang_Seq [of "a @ [0x40] @ b @ [0x2E] @ c"] using m(1) by blast
  then show "rx_test emailRegex s" unfolding s by (simp only: rx_test_lang)
qed

lemma emailRegex_examples:
  "rx_test emailRegex (U ''user@example.com'')"
  "\<not> rx_test emailRegex (U ''not-an-email'')"
  "\<not> rx_test emailRegex (U ''a@b'')"
  by (simp_all add: emailRegex_def RPlus_def not_space_at_def is_ws_def U_def)

section \<open>The validator reports the first violated rule\<close>

lemma first_violated_None:
  "first_violated rules p = None \<longleftrightarrow> (\<forall>r \<in> set rules. fst r p)"
  by (auto simp: first_violated_def find_None_iff)

lemma first_violated_first:
  assumes "i < length rules" "\<not> fst (rules ! i) p" "\<forall>j<i. fst (rules ! j) p"
  shows "first_violated rules p = Some (snd (rules ! i))"
proof -
  have "find (\<lambda>r. \<not> fst r p) rules = Some (rules ! i)"
    unfolding find_Some_iff using assms by auto
  then show ?thesis by (simp add: first_violated_def)
qed

lemma first_violated_not_later:
  assumes d: "distinct (map snd rules)" and ij: "i < j" "j < length rules"
    and bad: "\<not> fst (rules ! i) p"
  shows "first_violated rules p \<noteq> Some (snd (rules ! j))"
proof
  assume eq: "first_violated rules p = Some (snd (rules ! j))"
  then obtain r where f: "find (\<lambda>r. \<not> fst r p) rules = Some r" and r: "snd r = snd (rules ! j)"
    by (auto simp: first_violated_def)
  from f obtain k where k: "k < length rules" "r = rules ! k" "\<forall>m<k. \<not> \<not> fst (rules ! m) p"
    unfolding find_Some_iff by blast
  have "k \<le> i"
  proof (rule ccontr)
    assume "\<not> k \<le> i"
    then have "i < k" by simp
    with k(3) bad show False by blast
  qed
  with ij have "k \<noteq> j" by simp
  moreover have "map snd rules ! k = map snd rules ! j" using r k ij by simp
  ultimately show False using d k(1) ij(2) by (auto simp: distinct_conv_nth)
qed

lemma contact_messages_distinct: "distinct (map snd contact_rules)"
  by (simp add: contact_rules_def msg_name_def msg_email_def msg_subject_def msg_message_def msg_token_def)

lemma validatePayload_refines:
  "validatePayload p = first_violated contact_rules p"
  by (simp add: validatePayload_def first_violated_def contact_rules_def rule_name_def rule_email_def
      rule_subject_def rule_message_def rule_token_def not_less)

text \<open>
  Claim C1. For every sanitized submission the validator returns the message of the
  first violated rule, in the fixed order name (non-empty, 2 code units or more),
  email (non-empty, matches the address pattern), subject (non-empty), message
  (non-empty, 10 code units or more), turnstileToken (non-empty); it returns no error
  exactly when all five rules hold; and when a rule fails, the message of a later
  rule is never the result. For \<open>subject\<close> and \<open>turnstileToken\<close>, which hold the
  client's value, non-empty is JavaScript truthiness: on a string, \<open>s \<noteq> []\<close>. The
  address pattern accepts exactly the strings \<open>a@b.c\<close> with \<open>a\<close>, \<open>b\<close>, \<open>c\<close>
  non-empty and free of white space and \<open>@\<close>.
\<close>

theorem validatePayload_first_rule:
  "validatePayload p = first_violated contact_rules p \<and>
   (validatePayload p = None \<longleftrightarrow>
      rule_name p \<and> rule_email p \<and> rule_subject p \<and> rule_message p \<and> rule_token p) \<and>
   (\<forall>i<length contact_rules.
      \<not> fst (contact_rules ! i) p \<and> (\<forall>j<i. fst (contact_rules ! j) p) \<longrightarrow>
      validatePayload p = Some (snd (contact_rules ! i))) \<and>
   (\<forall>i j. i < j \<and> j < length contact_rules \<and> \<not> fst (contact_rules ! i) p \<longrightarrow>
      validatePayload p \<noteq> Some (snd (contact_rules ! j))) \<and>
   (rule_email p \<longleftrightarrow>
      (\<exists>a b c. email p = a @ [0x40] @ b @ [0x2E] @ c \<and> a \<noteq> [] \<and> b \<noteq> [] \<and> c \<noteq> [] \<and>
         (\<forall>x \<in> set (a @ b @ c). \<not> is_ws x \<and> x \<noteq> 0x40))) \<and>
   (\<forall>s. subject p = JStr s \<longrightarrow> (rule_subject p \<longleftrightarrow> s \<noteq> [])) \<and>
   (\<forall>s. turnstileToken p = JStr s \<longrightarrow> (rule_token p \<longleftrightarrow> s \<noteq> []))"
proof (intro conjI allI impI)
  show "rule_email p \<longleftrightarrow>
      (\<exists>a b c. email p = a @ [0x40] @ b @ [0x2E] @ c \<and> a \<noteq> [] \<and> b \<noteq> [] \<and> c \<noteq> [] \<and>
         (\<forall>x \<in> set (a @ b @ c). \<not> is_ws x \<and> x \<noteq> 0x40))"
    unfolding rule_email_def emailRegex_accepts by auto
  show "rule_subject p \<longleftrightarrow> s \<noteq> []" if "subject p = JStr s" for s
    using that by (simp add: rule_subject_def)
  show "rule_token p \<longleftrightarrow> s \<noteq> []" if "turnstileToken p = JStr s" for s
    using that by (simp add: rule_token_def)
  show "validatePayload p = first_violated contact_rules p" by (rule validatePayload_refines)
  show "validatePayload p = None \<longleftrightarrow>
      rule_name p \<and> rule_email p \<and> rule_subject p \<and> rule_message p \<and> rule_token p"
    unfolding validatePayload_refines first_violated_None by (simp add: contact_rules_def)
next
  fix i assume "i < length contact_rules"
    "\<not> fst (contact_rules ! i) p \<and> (\<forall>j<i. fst (contact_rules ! j) p)"
  then show "validatePayload p = Some (snd (contact_rules ! i))"
    unfolding validatePayload_refines by (intro first_violated_first) auto
next
  fix i j assume "i < j \<and> j < length contact_rules \<and> \<not> fst (contact_rules ! i) p"
  then show "validatePayload p \<noteq> Some (snd (contact_rules ! j))"
    unfolding validatePayload_refines
    by (intro first_violated_not_later contact_messages_distinct) auto
qed

theorem validatePayload_first_rule_witness:
  "\<not> fst (contact_rules ! 1) sample_bad_email \<and> \<not> fst (contact_rules ! 3) sample_bad_email \<and>
   fst (contact_rules ! 0) sample_bad_email \<and>
   validatePayload sample_bad_email = Some (snd (contact_rules ! 1)) \<and>
   validatePayload sample_bad_email \<noteq> Some (snd (contact_rules ! 3)) \<and>
   validatePayload sample_bad_email \<noteq> None"
proof -
  have n: "fst (contact_rules ! 0) sample_bad_email"
    by (simp add: contact_rules_def sample_bad_email_def rule_name_def U_def)
  have e: "\<not> fst (contact_rules ! 1) sample_bad_email"
    by (simp add: contact_rules_def sample_bad_email_def rule_email_def U_def emailRegex_def
        RPlus_def not_space_at_def is_ws_def)
  have m: "\<not> fst (contact_rules ! 3) sample_bad_email"
    by (simp add: contact_rules_def sample_bad_email_def rule_message_def U_def)
  have len: "length contact_rules = 5" by (simp add: contact_rules_def)
  note T = validatePayload_first_rule [of sample_bad_email]
  from T have first: "\<forall>i<length contact_rules.
      \<not> fst (contact_rules ! i) sample_bad_email \<and> (\<forall>j<i. fst (contact_rules ! j) sample_bad_email) \<longrightarrow>
      validatePayload sample_bad_email = Some (snd (contact_rules ! i))" by blast
  from T have later: "\<forall>i j. i < j \<and> j < length contact_rules \<and> \<not> fst (contact_rules ! i) sample_bad_email \<longrightarrow>
      validatePayload sample_bad_email \<noteq> Some (snd (contact_rules ! j))" by blast
  from T have none: "validatePayload sample_bad_email = None \<longleftrightarrow>
      rule_name sample_bad_email \<and> rule_email sample_bad_email \<and> rule_subject sample_bad_email \<and>
      rule_message sample_bad_email \<and> rule_token sample_bad_email" by blast
  have "\<forall>j<(1::nat). fst (contact_rules ! j) sample_bad_email" using n by simp
  then have r1: "validatePayload sample_bad_email = Some (snd (contact_rules ! 1))"
    using first [rule_format, of 1] e len by simp
  have r2: "validatePayload sample_bad_email \<noteq> Some (snd (contact_rules ! 3))"
    using later [rule_format, of 1 3] e len by simp
  from none e have r3: "validatePayload sample_bad_email \<noteq> None"
    by (simp add: contact_rules_def)
  from n e m r1 r2 r3 show ?thesis by blast
qed

section \<open>Routing\<close>

text \<open>
  Claim C10. For every request whose method is not OPTIONS and whose path is not the
  contact path, the response is 404 whatever the method: the path is checked before
  the method, so a GET to another path is answered 404, not 405. No outbound call is
  made.
\<close>

theorem worker_fetch_not_found:
  assumes "req_method req \<noteq> U ''OPTIONS''" and "req_pathname req \<noteq> U ''/api/contact''"
  shows "worker_fetch req env net =
           (Inr (buildJsonResponse 404 (error_body (U ''Not found''))
                   (resolveAllowedOrigin (req_origin req) (ALLOWED_ORIGINS env)) []), []) \<and>
         (\<exists>r. fst (worker_fetch req env net) = Inr r \<and> status r = 404)"
  using assms by (simp add: worker_fetch_def buildJsonResponse_def)

theorem worker_fetch_not_found_witness:
  "req_method sample_get_other \<noteq> U ''OPTIONS'' \<and> req_pathname sample_get_other \<noteq> U ''/api/contact'' \<and>
   req_method sample_get_other \<noteq> U ''POST'' \<and>
   (\<exists>r. fst (worker_fetch sample_get_other sample_env (\<lambda>c. Rejected)) = Inr r \<and> status r = 404)"
proof -
  have m: "req_method sample_get_other \<noteq> U ''OPTIONS''"
    by (simp add: sample_get_other_def U_def)
  have p: "req_pathname sample_get_other \<noteq> U ''/api/contact''"
    by (simp add: sample_get_other_def U_def)
  have g: "req_method sample_get_other \<noteq> U ''POST''"
    by (simp add: sample_get_other_def U_def)
  from worker_fetch_not_found [OF m p, of sample_env "\<lambda>c. Rejected"] m p g show ?thesis by blast
qed

section \<open>CORS\<close>

lemma map_of_obj_set: "map_of (obj_set kvs k v) = (map_of kvs)(k \<mapsto> v)"
  by (induction kvs k v rule: obj_set.induct) auto

lemma map_of_spread_other: "k \<notin> fst ` set ext \<Longrightarrow> map_of (spread base ext) k = map_of base k"
  by (induction base ext rule: spread.induct) (auto simp: map_of_obj_set)

lemma map_of_spread_base_other:
  "map_of base k = None \<Longrightarrow> distinct (map fst ext) \<Longrightarrow> map_of (spread base ext) k = map_of ext k"
proof (induction base ext rule: spread.induct)
  case (1 base)
  then show ?case by simp
next
  case (2 base k' v ext)
  show ?case
  proof (cases "k' = k")
    case True
    then have "k \<notin> fst ` set ext" using 2(3) by auto
    then have "map_of (spread (obj_set base k' v) ext) k = map_of (obj_set base k' v) k"
      by (rule map_of_spread_other)
    then show ?thesis using True by (simp add: map_of_obj_set)
  next
    case False
    then have "map_of (obj_set base k' v) k = None" using 2(2) by (simp add: map_of_obj_set)
    with 2 False show ?thesis by simp
  qed
qed

lemma cors_keys_distinct: "distinct (map fst (buildCorsHeaders origin))"
  by (simp add: buildCorsHeaders_def Let_def U_def split: option.splits)

lemma json_response_cors:
  assumes "k = U ''Access-Control-Allow-Origin'' \<or> k = U ''Vary''"
    and "extra = [] \<or> extra = [(U ''Allow'', U ''POST, OPTIONS'')]"
  shows "map_of (headers (buildJsonResponse st b origin extra)) k = map_of (buildCorsHeaders origin) k"
proof -
  have 1: "k \<noteq> U ''Allow''" "k \<noteq> U ''Content-Type''" using assms(1) by (auto simp: U_def)
  from assms(2) 1 have 2: "k \<notin> fst ` set extra" by auto
  have 3: "map_of [(U ''Content-Type'', U ''application/json'')] k = None" using 1 by simp
  show ?thesis
    unfolding buildJsonResponse_def
    by (simp add: map_of_spread_other [OF 2] map_of_spread_base_other [OF 3 cors_keys_distinct])
qed

lemma empty_not_entry: "[] \<notin> set (comma_entries cfg)"
  by (simp add: comma_entries_def)

lemma cors_allow_origin:
  "map_of (buildCorsHeaders origin) (U ''Access-Control-Allow-Origin'') =
     (case origin of None \<Rightarrow> None | Some og \<Rightarrow> if og \<noteq> [] then Some og else None)"
  by (simp add: buildCorsHeaders_def Let_def map_of_obj_set U_def split: option.splits)

lemma cors_vary:
  "map_of (buildCorsHeaders origin) (U ''Vary'') =
     (case origin of None \<Rightarrow> None | Some og \<Rightarrow> if og \<noteq> [] then Some (U ''Origin'') else None)"
  by (simp add: buildCorsHeaders_def Let_def map_of_obj_set U_def split: option.splits)

lemma worker_fetch_headers:
  assumes k: "k = U ''Access-Control-Allow-Origin'' \<or> k = U ''Vary''"
  shows "case fst (worker_fetch req env net) of
           Inl e \<Rightarrow> True
         | Inr r \<Rightarrow> map_of (headers r) k =
             map_of (buildCorsHeaders (resolveAllowedOrigin (req_origin req) (ALLOWED_ORIGINS env))) k"
proof -
  have a: "map_of (headers (buildJsonResponse st b origin [])) k = map_of (buildCorsHeaders origin) k"
    for st b origin using json_response_cors [OF k] by simp
  have b: "map_of (headers (buildJsonResponse st b origin [(U ''Allow'', U ''POST, OPTIONS'')])) k =
           map_of (buildCorsHeaders origin) k"
    for st b origin using json_response_cors [OF k] by simp
  have c: "map_of (headers (buildCorsResponse st origin)) k = map_of (buildCorsHeaders origin) k"
    for st origin by (simp add: buildCorsResponse_def)
  show ?thesis
    by (simp add: worker_fetch_def Let_def a b c split: sum.split option.split prod.split)
qed

lemma resolveAllowedOrigin_eq:
  "resolveAllowedOrigin origin configured =
     (case origin of
        None \<Rightarrow> None
      | Some og \<Rightarrow>
          (case configured of
             None \<Rightarrow> None
           | Some cfg \<Rightarrow>
               if og \<noteq> [] \<and> (U ''*'' \<in> set (comma_entries cfg) \<or> og \<in> set (comma_entries cfg))
               then Some og else None))"
proof -
  have "comma_entries [] = []"
    by (simp add: comma_entries_def str_split_def trim_def)
  then show ?thesis
    by (auto simp: resolveAllowedOrigin_def Let_def split: option.splits)
qed

text \<open>
  Claim C5. With \<open>origin\<close> the request's Origin header and \<open>configured\<close> the
  allow-list: if the comma-split, trimmed list contains \<open>*\<close>, the Origin is echoed
  verbatim in Access-Control-Allow-Origin; otherwise it is echoed exactly when it is
  literally an entry of the list; a missing Origin (absent or empty, which the
  guard \<open>!origin\<close> treats alike) or a missing configuration gives no such header;
  and \<open>Vary: Origin\<close> is present exactly when an origin is echoed. Every response
  of the handler carries these two headers as resolved. The entries of the list are
  the non-empty trimmed pieces of the configured string: the pieces contain no comma
  and joined with commas give the string back, and trimming a piece removes leading
  and trailing white space and nothing else.
\<close>

theorem cors_resolution:
  "let origin = req_origin req; configured = ALLOWED_ORIGINS env;
       hs = buildCorsHeaders (resolveAllowedOrigin origin configured);
       acao = map_of hs (U ''Access-Control-Allow-Origin'');
       vary = map_of hs (U ''Vary'')
   in (\<forall>og cfg. origin = Some og \<and> og \<noteq> [] \<and> configured = Some cfg \<and>
          U ''*'' \<in> set (comma_entries cfg) \<longrightarrow> acao = Some og) \<and>
      (\<forall>og cfg. origin = Some og \<and> configured = Some cfg \<and> U ''*'' \<notin> set (comma_entries cfg) \<longrightarrow>
          acao = (if og \<in> set (comma_entries cfg) then Some og else None)) \<and>
      (origin = None \<or> origin = Some [] \<or> configured = None \<longrightarrow> acao = None) \<and>
      vary = (if acao = None then None else Some (U ''Origin'')) \<and>
      (case fst (worker_fetch req env net) of
         Inl e \<Rightarrow> True
       | Inr r \<Rightarrow> map_of (headers r) (U ''Access-Control-Allow-Origin'') = acao \<and>
                  map_of (headers r) (U ''Vary'') = vary) \<and>
      (\<forall>cfg e. e \<in> set (comma_entries cfg) \<longleftrightarrow>
          e \<noteq> [] \<and> (\<exists>piece \<in> set (str_split 0x2C cfg). e = trim piece)) \<and>
      (\<forall>cfg. str_join [0x2C] (str_split 0x2C cfg) = cfg \<and>
          (\<forall>piece \<in> set (str_split 0x2C cfg). 0x2C \<notin> set piece)) \<and>
      (\<forall>s. trimmed (trim s) \<and> (\<exists>pre post. s = pre @ trim s @ post \<and>
          (\<forall>x \<in> set pre. is_ws x) \<and> (\<forall>x \<in> set post. is_ws x)))"
proof -
  let ?o = "resolveAllowedOrigin (req_origin req) (ALLOWED_ORIGINS env)"
  have 1: "\<forall>og cfg. req_origin req = Some og \<and> og \<noteq> [] \<and> ALLOWED_ORIGINS env = Some cfg \<and>
          U ''*'' \<in> set (comma_entries cfg) \<longrightarrow>
          map_of (buildCorsHeaders ?o) (U ''Access-Control-Allow-Origin'') = Some og"
    by (simp add: cors_allow_origin resolveAllowedOrigin_eq)
  have 2: "\<forall>og cfg. req_origin req = Some og \<and> ALLOWED_ORIGINS env = Some cfg \<and>
          U ''*'' \<notin> set (comma_entries cfg) \<longrightarrow>
          map_of (buildCorsHeaders ?o) (U ''Access-Control-Allow-Origin'') =
            (if og \<in> set (comma_entries cfg) then Some og else None)"
    using empty_not_entry by (auto simp: cors_allow_origin resolveAllowedOrigin_eq)
  have 3: "req_origin req = None \<or> req_origin req = Some [] \<or> ALLOWED_ORIGINS env = None \<longrightarrow>
          map_of (buildCorsHeaders ?o) (U ''Access-Control-Allow-Origin'') = None"
    by (auto simp: cors_allow_origin resolveAllowedOrigin_eq split: option.splits)
  have 4: "map_of (buildCorsHeaders ?o) (U ''Vary'') =
          (if map_of (buildCorsHeaders ?o) (U ''Access-Control-Allow-Origin'') = None then None
           else Some (U ''Origin''))"
    by (simp add: cors_allow_origin cors_vary split: option.splits)
  have 5: "case fst (worker_fetch req env net) of
         Inl e \<Rightarrow> True
       | Inr r \<Rightarrow> map_of (headers r) (U ''Access-Control-Allow-Origin'') =
                    map_of (buildCorsHeaders ?o) (U ''Access-Control-Allow-Origin'') \<and>
                  map_of (headers r) (U ''Vary'') = map_of (buildCorsHeaders ?o) (U ''Vary'')"
    using worker_fetch_headers [of "U ''Access-Control-Allow-Origin''" req env net]
      worker_fetch_headers [of "U ''Vary''" req env net]
    by (simp split: sum.splits)
  have 6: "\<forall>cfg e. e \<in> set (comma_entries cfg) \<longleftrightarrow>
          e \<noteq> [] \<and> (\<exists>piece \<in> set (str_split 0x2C cfg). e = trim piece)"
    using comma_entries_iff by blast
  have 7: "\<forall>cfg. str_join [0x2C] (str_split 0x2C cfg) = cfg \<and>
          (\<forall>piece \<in> set (str_split 0x2C cfg). 0x2C \<notin> set piece)"
    using str_split_pieces by blast
  have 8: "\<forall>s. trimmed (trim s) \<and> (\<exists>pre post. s = pre @ trim s @ post \<and>
          (\<forall>x \<in> set pre. is_ws x) \<and> (\<forall>x \<in> set post. is_ws x))"
    using trimmed_trim trim_strips by blast
  from 1 2 3 4 have A: "(\<forall>og cfg. req_origin req = Some og \<and> og \<noteq> [] \<and> ALLOWED_ORIGINS env = Some cfg \<and>
          U ''*'' \<in> set (comma_entries cfg) \<longrightarrow>
          map_of (buildCorsHeaders ?o) (U ''Access-Control-Allow-Origin'') = Some og) \<and>
      (\<forall>og cfg. req_origin req = Some og \<and> ALLOWED_ORIGINS env = Some cfg \<and>
          U ''*'' \<notin> set (comma_entries cfg) \<longrightarrow>
          map_of (buildCorsHeaders ?o) (U ''Access-Control-Allow-Origin'') =
            (if og \<in> set (comma_entries cfg) then Some og else None)) \<and>
      (req_origin req = None \<or> req_origin req = Some [] \<or> ALLOWED_ORIGINS env = None \<longrightarrow>
          map_of (buildCorsHeaders ?o) (U ''Access-Control-Allow-Origin'') = None) \<and>
      map_of (buildCorsHeaders ?o) (U ''Vary'') =
          (if map_of (buildCorsHeaders ?o) (U ''Access-Control-Allow-Origin'') = None then None
           else Some (U ''Origin''))"
    by (intro conjI)
  from 6 7 8 have B: "(\<forall>cfg e. e \<in> set (comma_entries cfg) \<longleftrightarrow>
          e \<noteq> [] \<and> (\<exists>piece \<in> set (str_split 0x2C cfg). e = trim piece)) \<and>
      (\<forall>cfg. str_join [0x2C] (str_split 0x2C cfg) = cfg \<and>
          (\<forall>piece \<in> set (str_split 0x2C cfg). 0x2C \<notin> set piece)) \<and>
      (\<forall>s. trimmed (trim s) \<and> (\<exists>pre post. s = pre @ trim s @ post \<and>
          (\<forall>x \<in> set pre. is_ws x) \<and> (\<forall>x \<in> set post. is_ws x)))"
    by (intro conjI)
  from A 5 B show ?thesis unfolding Let_def by (intro conjI) (erule conjE | assumption)+
qed

theorem cors_resolution_witness:
  "ALLOWED_ORIGINS sample_env_spaced = Some (U '' https://a.com , https://b.com '') \<and>
   str_split 0x2C (U '' https://a.com , https://b.com '') = [U '' https://a.com '', U '' https://b.com ''] \<and>
   comma_entries (U '' https://a.com , https://b.com '') = [U ''https://a.com'', U ''https://b.com''] \<and>
   req_origin sample_origin_request = Some (U ''https://b.com'') \<and>
   map_of (buildCorsHeaders (resolveAllowedOrigin (req_origin sample_origin_request)
             (ALLOWED_ORIGINS sample_env_spaced))) (U ''Access-Control-Allow-Origin'') =
     Some (U ''https://b.com'') \<and>
   map_of (buildCorsHeaders (resolveAllowedOrigin (req_origin sample_origin_request)
             (ALLOWED_ORIGINS sample_env_spaced))) (U ''Vary'') = Some (U ''Origin'') \<and>
   (\<exists>r. fst (worker_fetch sample_origin_request sample_env_spaced (\<lambda>c. Rejected)) = Inr r \<and>
        status r = 405 \<and>
        map_of (headers r) (U ''Access-Control-Allow-Origin'') = Some (U ''https://b.com'')) \<and>
   req_origin sample_other_origin_request = Some (U ''https://c.com'') \<and>
   map_of (buildCorsHeaders (resolveAllowedOrigin (req_origin sample_other_origin_request)
             (ALLOWED_ORIGINS sample_env_spaced))) (U ''Access-Control-Allow-Origin'') = None \<and>
   map_of (buildCorsHeaders (resolveAllowedOrigin (req_origin sample_other_origin_request)
             (ALLOWED_ORIGINS sample_env_spaced))) (U ''Vary'') = None \<and>
   U ''*'' \<in> set (comma_entries (U ''https://a.com, *'')) \<and>
   map_of (buildCorsHeaders (resolveAllowedOrigin (req_origin sample_other_origin_request)
             (ALLOWED_ORIGINS sample_env_wildcard))) (U ''Access-Control-Allow-Origin'') =
     Some (U ''https://c.com'')"
proof -
  let ?A = "U ''Access-Control-Allow-Origin''"
  have cs: "ALLOWED_ORIGINS sample_env_spaced = Some (U '' https://a.com , https://b.com '')"
    by (simp add: sample_env_spaced_def)
  have cw: "ALLOWED_ORIGINS sample_env_wildcard = Some (U ''https://a.com, *'')"
    by (simp add: sample_env_wildcard_def)
  have ob: "req_origin sample_origin_request = Some (U ''https://b.com'')"
    by (simp add: sample_origin_request_def)
  have oc: "req_origin sample_other_origin_request = Some (U ''https://c.com'')"
    by (simp add: sample_other_origin_request_def)
  have sp: "str_split 0x2C (U '' https://a.com , https://b.com '') =
      [U '' https://a.com '', U '' https://b.com '']"
    by (simp add: str_split_def U_def)
  have e: "comma_entries (U '' https://a.com , https://b.com '') = [U ''https://a.com'', U ''https://b.com'']"
    by (simp add: comma_entries_def str_split_def trim_def is_ws_def U_def)
  have ew: "comma_entries (U ''https://a.com, *'') = [U ''https://a.com'', U ''*'']"
    by (simp add: comma_entries_def str_split_def trim_def is_ws_def U_def)
  have ns: "U ''*'' \<notin> set (comma_entries (U '' https://a.com , https://b.com ''))"
    unfolding e by (simp add: U_def)
  have mb: "U ''https://b.com'' \<in> set (comma_entries (U '' https://a.com , https://b.com ''))"
    unfolding e by simp
  have mc: "U ''https://c.com'' \<notin> set (comma_entries (U '' https://a.com , https://b.com ''))"
    unfolding e by (simp add: U_def)
  have w: "U ''*'' \<in> set (comma_entries (U ''https://a.com, *''))"
    unfolding ew by simp
  have nc: "U ''https://c.com'' \<noteq> []" by (simp add: U_def)
  obtain r where r: "fst (worker_fetch sample_origin_request sample_env_spaced (\<lambda>c. Rejected)) = Inr r"
    and st: "status r = 405"
    by (simp add: worker_fetch_def sample_origin_request_def buildJsonResponse_def U_def)
  note T1 = cors_resolution [of sample_origin_request sample_env_spaced "\<lambda>c. Rejected", unfolded Let_def]
  note T2 = cors_resolution [of sample_other_origin_request sample_env_spaced "\<lambda>c. Rejected", unfolded Let_def]
  note T3 = cors_resolution [of sample_other_origin_request sample_env_wildcard "\<lambda>c. Rejected", unfolded Let_def]
  from T1 have T1b: "\<forall>og cfg. req_origin sample_origin_request = Some og \<and>
      ALLOWED_ORIGINS sample_env_spaced = Some cfg \<and> U ''*'' \<notin> set (comma_entries cfg) \<longrightarrow>
      map_of (buildCorsHeaders (resolveAllowedOrigin (req_origin sample_origin_request)
             (ALLOWED_ORIGINS sample_env_spaced))) ?A =
        (if og \<in> set (comma_entries cfg) then Some og else None)"
    by (elim conjE)
  from T1b ob cs ns mb have a: "map_of (buildCorsHeaders (resolveAllowedOrigin (req_origin sample_origin_request)
             (ALLOWED_ORIGINS sample_env_spaced))) ?A = Some (U ''https://b.com'')"
    by simp
  from T1 have T1v: "map_of (buildCorsHeaders (resolveAllowedOrigin (req_origin sample_origin_request)
             (ALLOWED_ORIGINS sample_env_spaced))) (U ''Vary'') =
      (if map_of (buildCorsHeaders (resolveAllowedOrigin (req_origin sample_origin_request)
             (ALLOWED_ORIGINS sample_env_spaced))) ?A = None then None else Some (U ''Origin''))"
    by (elim conjE)
  with a have v: "map_of (buildCorsHeaders (resolveAllowedOrigin (req_origin sample_origin_request)
             (ALLOWED_ORIGINS sample_env_spaced))) (U ''Vary'') = Some (U ''Origin'')"
    by simp
  from T1 have T1h: "case fst (worker_fetch sample_origin_request sample_env_spaced (\<lambda>c. Rejected)) of
         Inl e \<Rightarrow> True
       | Inr r \<Rightarrow> map_of (headers r) ?A =
            map_of (buildCorsHeaders (resolveAllowedOrigin (req_origin sample_origin_request)
             (ALLOWED_ORIGINS sample_env_spaced))) ?A \<and>
          map_of (headers r) (U ''Vary'') =
            map_of (buildCorsHeaders (resolveAllowedOrigin (req_origin sample_origin_request)
             (ALLOWED_ORIGINS sample_env_spaced))) (U ''Vary'')"
    by (elim conjE)
  with r a have h: "map_of (headers r) ?A = Some (U ''https://b.com'')"
    by simp
  from T2 have T2b: "\<forall>og cfg. req_origin sample_other_origin_request = Some og \<and>
      ALLOWED_ORIGINS sample_env_spaced = Some cfg \<and> U ''*'' \<notin> set (comma_entries cfg) \<longrightarrow>
      map_of (buildCorsHeaders (resolveAllowedOrigin (req_origin sample_other_origin_request)
             (ALLOWED_ORIGINS sample_env_spaced))) ?A =
        (if og \<in> set (comma_entries cfg) then Some og else None)"
    by (elim conjE)
  from T2b oc cs ns mc have n: "map_of (buildCorsHeaders (resolveAllowedOrigin (req_origin sample_other_origin_request)
             (ALLOWED_ORIGINS sample_env_spaced))) ?A = None"
    by simp
  from T2 have T2v: "map_of (buildCorsHeaders (resolveAllowedOrigin (req_origin sample_other_origin_request)
             (ALLOWED_ORIGINS sample_env_spaced))) (U ''Vary'') =
      (if map_of (buildCorsHeaders (resolveAllowedOrigin (req_origin sample_other_origin_request)
             (ALLOWED_ORIGINS sample_env_spaced))) ?A = None then None else Some (U ''Origin''))"
    by (elim conjE)
  with n have nv: "map_of (buildCorsHeaders (resolveAllowedOrigin (req_origin sample_other_origin_request)
             (ALLOWED_ORIGINS sample_env_spaced))) (U ''Vary'') = None"
    by simp
  from T3 have T3a: "\<forall>og cfg. req_origin sample_other_origin_request = Some og \<and> og \<noteq> [] \<and>
      ALLOWED_ORIGINS sample_env_wildcard = Some cfg \<and> U ''*'' \<in> set (comma_entries cfg) \<longrightarrow>
      map_of (buildCorsHeaders (resolveAllowedOrigin (req_origin sample_other_origin_request)
             (ALLOWED_ORIGINS sample_env_wildcard))) ?A = Some og"
    by (elim conjE)
  from T3a oc cw w nc have wc: "map_of (buildCorsHeaders (resolveAllowedOrigin (req_origin sample_other_origin_request)
             (ALLOWED_ORIGINS sample_env_wildcard))) ?A = Some (U ''https://c.com'')"
    by blast
  from cs sp e ob a v r st h oc n nv w wc show ?thesis by blast
qed

section \<open>The sanitizer\<close>

lemma bindE_Inr_iff: "bindE m f = Inr b \<longleftrightarrow> (\<exists>a. m = Inr a \<and> f a = Inr b)"
  by (cases m) (simp_all add: bindE_def)

lemma bindE_Inl_iff: "bindE m f = Inl e \<longleftrightarrow> m = Inl e \<or> (\<exists>a. m = Inr a \<and> f a = Inl e)"
  by (cases m) (simp_all add: bindE_def)


lemma bindE_Inr: "bindE (Inr a) f = f a"
  by (simp add: bindE_def)


lemma field_or_Inr: "field_or raw k d = Inr v \<longleftrightarrow> (\<exists>x. get_prop raw k = Inr x \<and> v = nullish x (JStr d))"
  by (auto simp: field_or_def bindE_Inr_iff)



lemma field_or_obj: "field_or (JObj kvs) k d = Inr (nullish (map_of kvs k) (JStr d))"
  by (simp add: field_or_def get_prop_def bindE_def)

lemma field_trimmed_Inr:
  "field_trimmed raw k = Inr t \<longleftrightarrow> (\<exists>s. field_or raw k [] = Inr (JStr s) \<and> t = trim s)"
proof (cases "field_or raw k []")
  case (Inl a)
  then show ?thesis by (simp add: field_trimmed_def bindE_def)
next
  case (Inr v)
  then show ?thesis by (cases v) (auto simp: field_trimmed_def bindE_def call_trim_def)
qed



lemma sanitizePayload_Inr:
  "sanitizePayload raw = Inr p \<longleftrightarrow>
     field_trimmed raw (U ''name'') = Inr (name p) \<and>
     field_trimmed raw (U ''email'') = Inr (email p) \<and>
     field_trimmed raw (U ''phone'') = Inr (phone p) \<and>
     field_or raw (U ''subject'') default_subject = Inr (subject p) \<and>
     field_or raw (U ''budget'') [] = Inr (budget p) \<and>
     field_trimmed raw (U ''deadline'') = Inr (deadline p) \<and>
     field_trimmed raw (U ''message'') = Inr (message p) \<and>
     field_or raw (U ''turnstileToken'') [] = Inr (turnstileToken p)"
  by (cases p) (auto simp: sanitizePayload_def bindE_Inr_iff)




lemma post_not_options: "U ''POST'' \<noteq> U ''OPTIONS''"
  by (simp add: U_def)




section \<open>A non-string field is an invalid payload\<close>



section \<open>From validation to the response\<close>

lemma worker_fetch_verified:
  assumes "req_method req = U ''POST''" and "req_pathname req = U ''/api/contact''"
    and "parse_and_sanitize req = Inr p" and "validatePayload p = None"
    and "verifyTurnstile (turnstileToken p) (TURNSTILE_SECRET env) (req_cf_ip req) net = (Inr passed, calls)"
  shows "worker_fetch req env net =
     (let allowedOrigin = resolveAllowedOrigin (req_origin req) (ALLOWED_ORIGINS env) in
      if \<not> passed
      then (Inr (buildJsonResponse 403 (error_body (U ''Bot verification failed'')) allowedOrigin []), calls)
      else
        (case sendResendEmail p env net of
           (Inr u, calls') \<Rightarrow>
             (Inr (buildJsonResponse 200 success_body allowedOrigin []), calls @ calls')
         | (Inl error, calls') \<Rightarrow>
             (Inr (buildJsonResponse 502 (error_body msg_delivery_failed) allowedOrigin []),
              calls @ calls')))"
  using assms post_not_options by (simp add: worker_fetch_def Let_def)


lemma siteverify_not_resend: "siteverify_url \<noteq> resend_url"
  by (simp add: siteverify_url_def resend_url_def U_def)

lemma fr_url_siteverify_call: "fr_url (siteverify_call secret tok ip) = siteverify_url"
  by (simp add: siteverify_call_def)

lemma fr_url_resend_call: "fr_url (resend_call p env toList parts) = resend_url"
  by (cases parts) (simp add: resend_call_def)

lemma verifyTurnstile_calls:
  "verifyTurnstile token secret ip net = (res, calls) \<Longrightarrow> \<forall>c \<in> set calls. fr_url c = siteverify_url"
  by (auto simp: verifyTurnstile_def Let_def fr_url_siteverify_call
      split: if_splits sum.splits fetch_outcome.splits option.splits)


lemma sample_sanitize: "parse_and_sanitize sample_request = Inr sample_sanitized"
  by (simp add: parse_and_sanitize_def sample_request_def sanitizePayload_Inr field_trimmed_Inr
      field_or_obj sample_payload_def sample_sanitized_def nullish_def trim_def is_ws_def U_def)

lemma sample_valid: "validatePayload sample_sanitized = None"
  by (simp add: validatePayload_def sample_sanitized_def emailRegex_def RPlus_def not_space_at_def
      is_ws_def U_def)

lemma sample_routing:
  "req_method sample_request = U ''POST''" "req_pathname sample_request = U ''/api/contact''"
  by (simp_all add: sample_request_def)

lemma sample_secret: "TURNSTILE_SECRET sample_env \<noteq> []"
  by (simp add: sample_env_def U_def)

lemma sample_token: "to_string (turnstileToken sample_sanitized) = Inr (U ''token-1'')"
  by (simp add: sample_sanitized_def)

section \<open>Bot verification fails closed\<close>




section \<open>The mail bodies are built for string fields\<close>

lemma escape_JStr: "escape (JStr s) = Inr (escape_str s)"
  by (simp add: escape_def)

lemma row_JStr: "row label (JStr s) = Inr (row_open @ label @ row_mid @ escape_str s @ row_close)"
  by (simp add: row_def escape_JStr bindE_Inr)

lemma or_dash_JStr: "or_dash (JStr s) = JStr (str_or_dash s)"
  by (simp add: or_dash_def str_or_dash_def)

lemma buildTextBody_strings:
  assumes "subject p = JStr su" and "budget p = JStr bu"
  shows "buildTextBody p =
     Inr (str_join [0x0A]
       [U ''Name: '' @ name p,
        U ''Email: '' @ email p,
        U ''Phone: '' @ str_or_dash (phone p),
        U ''Subject: '' @ su,
        U ''Budget: '' @ str_or_dash bu,
        U ''Deadline: '' @ str_or_dash (deadline p),
        [],
        U ''Message:'',
        message p])"
  by (simp add: buildTextBody_def assms or_dash_JStr bindE_Inr)

lemma buildHtmlBody_strings:
  assumes "subject p = JStr su" and "budget p = JStr bu"
  shows "buildHtmlBody p env =
     Inr (html_head @ escape_str (case SITE_NAME env of None \<Rightarrow> U ''WANYA Contact'' | Some n \<Rightarrow> n) @
          html_after_site @
          (row_open @ label_name @ row_mid @ escape_str (name p) @ row_close) @ html_row_gap @
          (row_open @ label_email @ row_mid @ escape_str (email p) @ row_close) @ html_row_gap @
          (row_open @ label_phone @ row_mid @ escape_str (str_or_dash (phone p)) @ row_close) @
          html_row_gap_sp @
          (row_open @ label_subject @ row_mid @ escape_str su @ row_close) @ html_row_gap @
          (row_open @ label_budget @ row_mid @ escape_str (str_or_dash bu) @ row_close) @
          html_row_gap_sp @
          (row_open @ label_deadline @ row_mid @ escape_str (str_or_dash (deadline p)) @ row_close) @
          html_before_message @
          escape_str (message p) @ html_tail)"
  unfolding buildHtmlBody_def assms or_dash_JStr row_JStr escape_JStr bindE_Inr by (rule refl)

lemma mail_parts_strings:
  assumes "subject p = JStr su" and "budget p = JStr bu"
  shows "\<exists>parts. mail_parts p env = Inr parts"
  by (simp add: mail_parts_def buildTextBody_strings [OF assms] buildHtmlBody_strings [OF assms]
      assms(1) bindE_Inr)

section \<open>The mail dispatcher and its failures\<close>

lemma sample_verified:
  "verifyTurnstile (turnstileToken sample_sanitized) (TURNSTILE_SECRET sample_env)
       (req_cf_ip sample_request) sample_net_ok =
     (Inr True, [siteverify_call (TURNSTILE_SECRET sample_env) (U ''token-1'') (req_cf_ip sample_request)])"
  using sample_secret
  by (simp add: verifyTurnstile_def sample_token sample_net_ok_def fr_url_siteverify_call
      verdict_response_def hr_ok_def get_prop_def)

lemma sample_verified_mail_down:
  "verifyTurnstile (turnstileToken sample_sanitized) (TURNSTILE_SECRET sample_env)
       (req_cf_ip sample_request) sample_net_mail_down =
     (Inr True, [siteverify_call (TURNSTILE_SECRET sample_env) (U ''token-1'') (req_cf_ip sample_request)])"
  using sample_secret
  by (simp add: verifyTurnstile_def sample_token sample_net_mail_down_def fr_url_siteverify_call
      verdict_response_def hr_ok_def get_prop_def)

text \<open>
  Claim C6. With the delivery-disabled flag set to \<open>true\<close> the dispatcher returns
  at once, having called nothing; and a valid submission that passed the bot
  verification is answered 200 with the body \<open>{ success: true }\<close>, none of the
  outbound calls of the request going to the mail endpoint.
\<close>

theorem delivery_disabled:
  assumes "RESEND_DISABLED env = Some (U ''true'')"
  shows "sendResendEmail p env net = (Inr (), []) \<and>
    (req_method req = U ''POST'' \<and> req_pathname req = U ''/api/contact'' \<and>
       parse_and_sanitize req = Inr p \<and> validatePayload p = None \<and>
       verifyTurnstile (turnstileToken p) (TURNSTILE_SECRET env) (req_cf_ip req) net = (Inr True, calls) \<longrightarrow>
       worker_fetch req env net =
         (Inr (buildJsonResponse 200 success_body
                 (resolveAllowedOrigin (req_origin req) (ALLOWED_ORIGINS env)) []), calls) \<and>
       status (buildJsonResponse 200 success_body
                 (resolveAllowedOrigin (req_origin req) (ALLOWED_ORIGINS env)) []) = 200 \<and>
       body (buildJsonResponse 200 success_body
                 (resolveAllowedOrigin (req_origin req) (ALLOWED_ORIGINS env)) []) =
         Some (JObj [(U ''success'', JBool True)]) \<and>
       (\<forall>c \<in> set calls. fr_url c \<noteq> resend_url))"
proof (intro conjI impI)
  show d: "sendResendEmail p env net = (Inr (), [])"
    using assms by (simp add: sendResendEmail_def)
  assume a: "req_method req = U ''POST'' \<and> req_pathname req = U ''/api/contact'' \<and>
       parse_and_sanitize req = Inr p \<and> validatePayload p = None \<and>
       verifyTurnstile (turnstileToken p) (TURNSTILE_SECRET env) (req_cf_ip req) net = (Inr True, calls)"
  then show "worker_fetch req env net =
         (Inr (buildJsonResponse 200 success_body
                 (resolveAllowedOrigin (req_origin req) (ALLOWED_ORIGINS env)) []), calls)"
    using worker_fetch_verified [of req p env net True calls] d by simp
  show "status (buildJsonResponse 200 success_body
                 (resolveAllowedOrigin (req_origin req) (ALLOWED_ORIGINS env)) []) = 200"
    by (simp add: buildJsonResponse_def)
  show "body (buildJsonResponse 200 success_body
                 (resolveAllowedOrigin (req_origin req) (ALLOWED_ORIGINS env)) []) =
         Some (JObj [(U ''success'', JBool True)])"
    by (simp add: buildJsonResponse_def success_body_def)
  from a show "\<forall>c \<in> set calls. fr_url c \<noteq> resend_url"
    using verifyTurnstile_calls siteverify_not_resend by metis
qed

theorem delivery_disabled_witness:
  "RESEND_DISABLED sample_env = Some (U ''true'') \<and>
   parse_and_sanitize sample_request = Inr sample_sanitized \<and>
   validatePayload sample_sanitized = None \<and>
   worker_fetch sample_request sample_env sample_net_ok =
     (Inr (buildJsonResponse 200 success_body
             (resolveAllowedOrigin (req_origin sample_request) (ALLOWED_ORIGINS sample_env)) []),
      [siteverify_call (TURNSTILE_SECRET sample_env) (U ''token-1'') (req_cf_ip sample_request)]) \<and>
   sendResendEmail sample_sanitized sample_env sample_net_ok = (Inr (), [])"
proof -
  have f: "RESEND_DISABLED sample_env = Some (U ''true'')"
    by (simp add: sample_env_def)
  note T = delivery_disabled [OF f, of sample_sanitized sample_net_ok sample_request
      "[siteverify_call (TURNSTILE_SECRET sample_env) (U ''token-1'') (req_cf_ip sample_request)]"]
  from T sample_routing sample_sanitize sample_valid sample_verified f show ?thesis by blast
qed

text \<open>
  Claim C7. When the mail dispatch fails, whatever the error, the handler answers
  502 with the body \<open>{ success: false, error: m }\<close>, \<open>m\<close> the fixed localized
  delivery-failure message; in particular when the mail API answers with a
  non-success status, the error raised carries that status and the response text,
  and neither is part of the response to the client, which is the same for every
  such failure.
\<close>

theorem delivery_failure:
  assumes "req_method req = U ''POST''" and "req_pathname req = U ''/api/contact''"
    and "parse_and_sanitize req = Inr p" and "validatePayload p = None"
    and "verifyTurnstile (turnstileToken p) (TURNSTILE_SECRET env) (req_cf_ip req) net = (Inr True, calls)"
  shows "(sendResendEmail p env net = (Inl e, calls') \<longrightarrow>
       worker_fetch req env net =
         (Inr \<lparr> status = 502,
                body = Some (JObj [(U ''success'', JBool False), (U ''error'', JStr msg_delivery_failed)]),
                headers = headers (buildJsonResponse 502 (error_body msg_delivery_failed)
                   (resolveAllowedOrigin (req_origin req) (ALLOWED_ORIGINS env)) []) \<rparr>,
          calls @ calls')) \<and>
    (RESEND_DISABLED env \<noteq> Some (U ''true'') \<and> comma_entries (TO_EMAIL env) \<noteq> [] \<and>
     mail_parts p env = Inr parts \<and>
     net (resend_call p env (comma_entries (TO_EMAIL env)) parts) = Responded r \<and> \<not> hr_ok r \<longrightarrow>
       sendResendEmail p env net =
         (Inl (Error (U ''Resend API error: '' @ show_nat (hr_status r) @ U '' '' @ hr_text r)),
          [resend_call p env (comma_entries (TO_EMAIL env)) parts]))"
proof (intro conjI impI)
  assume "sendResendEmail p env net = (Inl e, calls')"
  then show "worker_fetch req env net =
         (Inr \<lparr> status = 502,
                body = Some (JObj [(U ''success'', JBool False), (U ''error'', JStr msg_delivery_failed)]),
                headers = headers (buildJsonResponse 502 (error_body msg_delivery_failed)
                   (resolveAllowedOrigin (req_origin req) (ALLOWED_ORIGINS env)) []) \<rparr>,
          calls @ calls')"
    using worker_fetch_verified [OF assms] by (simp add: buildJsonResponse_def error_body_def)
next
  assume "RESEND_DISABLED env \<noteq> Some (U ''true'') \<and> comma_entries (TO_EMAIL env) \<noteq> [] \<and>
     mail_parts p env = Inr parts \<and>
     net (resend_call p env (comma_entries (TO_EMAIL env)) parts) = Responded r \<and> \<not> hr_ok r"
  then show "sendResendEmail p env net =
         (Inl (Error (U ''Resend API error: '' @ show_nat (hr_status r) @ U '' '' @ hr_text r)),
          [resend_call p env (comma_entries (TO_EMAIL env)) parts])"
    by (simp add: sendResendEmail_def Let_def)
qed

lemma sample_live_fields:
  "RESEND_DISABLED sample_env_live = None" "TURNSTILE_SECRET sample_env_live = TURNSTILE_SECRET sample_env"
  "TO_EMAIL sample_env_live = U ''owner@example.com''"
  "ALLOWED_ORIGINS sample_env_live = ALLOWED_ORIGINS sample_env"
  by (simp_all add: sample_env_live_def sample_env_def)

lemma sample_recipients: "comma_entries (U ''owner@example.com'') = [U ''owner@example.com'']"
  by (simp add: comma_entries_def str_split_def trim_def is_ws_def U_def)

theorem delivery_failure_witness:
  "\<not> hr_ok failure_response \<and> hr_status failure_response = 500 \<and>
   (\<exists>parts.
      mail_parts sample_sanitized sample_env_live = Inr parts \<and>
      sendResendEmail sample_sanitized sample_env_live sample_net_mail_down =
        (Inl (Error (U ''Resend API error: '' @ show_nat 500 @ U '' '' @ U ''boom'')),
         [resend_call sample_sanitized sample_env_live [U ''owner@example.com''] parts]) \<and>
      worker_fetch sample_request sample_env_live sample_net_mail_down =
        (Inr \<lparr> status = 502,
               body = Some (JObj [(U ''success'', JBool False), (U ''error'', JStr msg_delivery_failed)]),
               headers = headers (buildJsonResponse 502 (error_body msg_delivery_failed)
                  (resolveAllowedOrigin (req_origin sample_request) (ALLOWED_ORIGINS sample_env_live)) []) \<rparr>,
         [siteverify_call (TURNSTILE_SECRET sample_env) (U ''token-1'') (req_cf_ip sample_request),
          resend_call sample_sanitized sample_env_live [U ''owner@example.com''] parts]))"
proof -
  have nok: "\<not> hr_ok failure_response" and st: "hr_status failure_response = 500"
    and tx: "hr_text failure_response = U ''boom''"
    by (simp_all add: hr_ok_def failure_response_def)
  obtain parts where parts: "mail_parts sample_sanitized sample_env_live = Inr parts"
    using mail_parts_strings [of sample_sanitized "U ''Hello''" "U ''under_10000''" sample_env_live]
    by (auto simp: sample_sanitized_def)
  let ?mail = "resend_call sample_sanitized sample_env_live [U ''owner@example.com''] parts"
  have down: "sample_net_mail_down ?mail = Responded failure_response"
    using siteverify_not_resend by (simp add: sample_net_mail_down_def fr_url_resend_call)
  have v: "verifyTurnstile (turnstileToken sample_sanitized) (TURNSTILE_SECRET sample_env_live)
       (req_cf_ip sample_request) sample_net_mail_down =
     (Inr True, [siteverify_call (TURNSTILE_SECRET sample_env) (U ''token-1'') (req_cf_ip sample_request)])"
    using sample_verified_mail_down by (simp add: sample_live_fields)
  note T = delivery_failure [OF sample_routing sample_sanitize sample_valid v,
      where parts = parts and r = failure_response and calls' = "[?mail]"
        and e = "Error (U ''Resend API error: '' @ show_nat 500 @ U '' '' @ U ''boom'')"]
  have live: "RESEND_DISABLED sample_env_live \<noteq> Some (U ''true'')"
    "comma_entries (TO_EMAIL sample_env_live) = [U ''owner@example.com'']"
    by (simp_all add: sample_live_fields sample_recipients)
  from T live parts down nok
  have s: "sendResendEmail sample_sanitized sample_env_live sample_net_mail_down =
        (Inl (Error (U ''Resend API error: '' @ show_nat 500 @ U '' '' @ U ''boom'')), [?mail])"
    by (simp add: st tx)
  with T have w: "worker_fetch sample_request sample_env_live sample_net_mail_down =
        (Inr \<lparr> status = 502,
               body = Some (JObj [(U ''success'', JBool False), (U ''error'', JStr msg_delivery_failed)]),
               headers = headers (buildJsonResponse 502 (error_body msg_delivery_failed)
                  (resolveAllowedOrigin (req_origin sample_request) (ALLOWED_ORIGINS sample_env_live)) []) \<rparr>,
         [siteverify_call (TURNSTILE_SECRET sample_env) (U ''token-1'') (req_cf_ip sample_request), ?mail])"
    by simp
  from nok st parts s w show ?thesis by blast
qed

lemma sample_no_recipient_fields:
  "RESEND_DISABLED sample_env_no_recipient = None"
  "TURNSTILE_SECRET sample_env_no_recipient = TURNSTILE_SECRET sample_env"
  "TO_EMAIL sample_env_no_recipient = U '' , ''"
  "ALLOWED_ORIGINS sample_env_no_recipient = ALLOWED_ORIGINS sample_env"
  by (simp_all add: sample_env_no_recipient_def sample_env_def)

lemma sample_no_recipients: "comma_entries (U '' , '') = []"
  by (simp add: comma_entries_def str_split_def trim_def is_ws_def U_def)

text \<open>
  Claim C2 does not hold as stated: the configuration error of an empty recipient
  list is raised inside the \<open>try\<close> around the dispatch, so it is caught and answered
  with the 502 delivery-failure response; nothing leaves the handler uncaught.
\<close>

theorem empty_recipients_counterexample:
  "comma_entries (TO_EMAIL sample_env_no_recipient) = [] \<and>
   worker_fetch sample_request sample_env_no_recipient sample_net_ok =
     (Inr (buildJsonResponse 502 (error_body msg_delivery_failed)
             (resolveAllowedOrigin (req_origin sample_request) (ALLOWED_ORIGINS sample_env_no_recipient)) []),
      [siteverify_call (TURNSTILE_SECRET sample_env) (U ''token-1'') (req_cf_ip sample_request)])"
proof -
  have e: "comma_entries (TO_EMAIL sample_env_no_recipient) = []"
    by (simp add: sample_no_recipient_fields sample_no_recipients)
  have v: "verifyTurnstile (turnstileToken sample_sanitized) (TURNSTILE_SECRET sample_env_no_recipient)
       (req_cf_ip sample_request) sample_net_ok =
     (Inr True, [siteverify_call (TURNSTILE_SECRET sample_env) (U ''token-1'') (req_cf_ip sample_request)])"
    using sample_verified by (simp add: sample_no_recipient_fields)
  have d: "sendResendEmail sample_sanitized sample_env_no_recipient sample_net_ok =
      (Inl (Error (U ''TO_EMAIL is not configured'')), [])"
    using e by (simp add: sendResendEmail_def sample_no_recipient_fields(1))
  from worker_fetch_verified [OF sample_routing sample_sanitize sample_valid v] d e
  show ?thesis by simp
qed

text \<open>
  Claim C2, amended. If delivery is not disabled and the configured recipient string
  splits (on commas, trimming, discarding empty entries) into an empty list, the mail
  dispatch fails with the configuration error \<open>TO_EMAIL is not configured\<close> before
  any call to the mail endpoint, and the handler catches it like every other
  dispatch failure: a valid, verified submission is answered with the 502
  delivery-failure response.
\<close>

theorem empty_recipients_delivery_failure:
  assumes "RESEND_DISABLED env \<noteq> Some (U ''true'')" and "comma_entries (TO_EMAIL env) = []"
  shows "sendResendEmail p env net = (Inl (Error (U ''TO_EMAIL is not configured'')), []) \<and>
    (req_method req = U ''POST'' \<and> req_pathname req = U ''/api/contact'' \<and>
       parse_and_sanitize req = Inr p \<and> validatePayload p = None \<and>
       verifyTurnstile (turnstileToken p) (TURNSTILE_SECRET env) (req_cf_ip req) net = (Inr True, calls) \<longrightarrow>
       worker_fetch req env net =
         (Inr (buildJsonResponse 502 (error_body msg_delivery_failed)
                 (resolveAllowedOrigin (req_origin req) (ALLOWED_ORIGINS env)) []), calls) \<and>
       status (buildJsonResponse 502 (error_body msg_delivery_failed)
                 (resolveAllowedOrigin (req_origin req) (ALLOWED_ORIGINS env)) []) = 502)"
proof (intro conjI impI)
  show d: "sendResendEmail p env net = (Inl (Error (U ''TO_EMAIL is not configured'')), [])"
    using assms by (simp add: sendResendEmail_def)
  assume "req_method req = U ''POST'' \<and> req_pathname req = U ''/api/contact'' \<and>
       parse_and_sanitize req = Inr p \<and> validatePayload p = None \<and>
       verifyTurnstile (turnstileToken p) (TURNSTILE_SECRET env) (req_cf_ip req) net = (Inr True, calls)"
  then show "worker_fetch req env net =
         (Inr (buildJsonResponse 502 (error_body msg_delivery_failed)
                 (resolveAllowedOrigin (req_origin req) (ALLOWED_ORIGINS env)) []), calls)"
    using worker_fetch_verified [of req p env net True calls] d by simp
  show "status (buildJsonResponse 502 (error_body msg_delivery_failed)
                 (resolveAllowedOrigin (req_origin req) (ALLOWED_ORIGINS env)) []) = 502"
    by (simp add: buildJsonResponse_def)
qed

theorem empty_recipients_delivery_failure_witness:
  "RESEND_DISABLED sample_env_no_recipient \<noteq> Some (U ''true'') \<and>
   comma_entries (TO_EMAIL sample_env_no_recipient) = [] \<and>
   sendResendEmail sample_sanitized sample_env_no_recipient sample_net_ok =
     (Inl (Error (U ''TO_EMAIL is not configured'')), []) \<and>
   fst (worker_fetch sample_request sample_env_no_recipient sample_net_ok) =
     Inr (buildJsonResponse 502 (error_body msg_delivery_failed)
            (resolveAllowedOrigin (req_origin sample_request) (ALLOWED_ORIGINS sample_env_no_recipient)) [])"
proof -
  have f: "RESEND_DISABLED sample_env_no_recipient \<noteq> Some (U ''true'')"
    by (simp add: sample_no_recipient_fields)
  have e: "comma_entries (TO_EMAIL sample_env_no_recipient) = []"
    by (simp add: sample_no_recipient_fields sample_no_recipients)
  have v: "verifyTurnstile (turnstileToken sample_sanitized) (TURNSTILE_SECRET sample_env_no_recipient)
       (req_cf_ip sample_request) sample_net_ok =
     (Inr True, [siteverify_call (TURNSTILE_SECRET sample_env) (U ''token-1'') (req_cf_ip sample_request)])"
    using sample_verified by (simp add: sample_no_recipient_fields)
  note T = empty_recipients_delivery_failure [OF f e, of sample_sanitized sample_net_ok sample_request
      "[siteverify_call (TURNSTILE_SECRET sample_env) (U ''token-1'') (req_cf_ip sample_request)]"]
  from T have 1: "sendResendEmail sample_sanitized sample_env_no_recipient sample_net_ok =
     (Inl (Error (U ''TO_EMAIL is not configured'')), [])" by blast
  from T sample_routing sample_sanitize sample_valid v
  have "worker_fetch sample_request sample_env_no_recipient sample_net_ok =
     (Inr (buildJsonResponse 502 (error_body msg_delivery_failed)
            (resolveAllowedOrigin (req_origin sample_request) (ALLOWED_ORIGINS sample_env_no_recipient)) []),
      [siteverify_call (TURNSTILE_SECRET sample_env) (U ''token-1'') (req_cf_ip sample_request)])"
    by blast
  then have 2: "fst (worker_fetch sample_request sample_env_no_recipient sample_net_ok) =
     Inr (buildJsonResponse 502 (error_body msg_delivery_failed)
            (resolveAllowedOrigin (req_origin sample_request) (ALLOWED_ORIGINS sample_env_no_recipient)) [])"
    by simp
  from f e 1 2 show ?thesis by blast
qed

section \<open>Escaping in the mail bodies\<close>












lemma escape_non_string: "\<forall>s. v \<noteq> JStr s \<Longrightarrow> escape v = Inl TypeError"
  by (cases v) (simp_all add: escape_def)









end
